theory Spec2Isabelle
  imports Main "HOL-Library.Word"
begin

section \<open>Python values, exceptions and the runtime the converters call\<close>

text \<open>
  A shallow embedding of \<^verbatim>\<open>datamodel/converters.pyx\<close>. The file holds two variants of
  the module: the first one (lines 1-284, parsing dates with dateutil) and the second one
  (lines 285-789, parsing dates with ciso8601 and pendulum). The second variant keeps the
  source's names; a definition of the first variant carries the suffix \<open>_v1\<close>.

  An exception is a value of \<open>py_error\<close>; a call that may raise returns
  \<open>py_error + 'a\<close>, with \<open>Inl\<close> for the exception. \<open>UnicodeDecodeError\<close> is a subclass of
  \<open>ValueError\<close>, so a handler for \<open>ValueError\<close> catches both.
\<close>

datatype py_error =
    ValueError | UnicodeDecodeError | TypeError | KeyError | IndexError
  | AttributeError | OverflowError | InvalidOperation | RuntimeError | UnboundLocalError

definition isinstance_ValueError :: "py_error \<Rightarrow> bool" where
  "isinstance_ValueError e = (e = ValueError \<or> e = UnicodeDecodeError)"

text \<open>
  Dates, times and identifiers are records of their fields. A float is its IEEE-754 bit
  pattern; a decimal is a coefficient and an exponent. A duration is its total number of
  microseconds, which is what \<^verbatim>\<open>datetime.timedelta\<close> normalises its arguments to.
\<close>

datatype pydate = Date int int int

datatype pydatetime = DateTime int int int int int int int

datatype pytime = Time int int int int

datatype pyuuid = UUID nat

datatype pydecimal = Decimal int int

text \<open>
  The values a converter can receive. A \<open>char\<close> of HOL is an 8-bit value: in \<open>Str\<close> it is
  a code point below 256, in \<open>Bytes\<close> a byte (\<open>Bytes\<close> stands for both \<^verbatim>\<open>bytes\<close> and
  \<^verbatim>\<open>bytearray\<close>, which the source always tests together). A dictionary is the list of
  its items in insertion order. \<open>Callable r\<close> is any callable object, \<open>r\<close> being what a call
  with no argument does: \<open>Some v\<close> returns \<open>v\<close>, \<open>None\<close> raises. \<open>Missing\<close> is an instance
  of \<^verbatim>\<open>dataclasses._MISSING_TYPE\<close> and \<open>MISSING_TYPE\<close> that class itself. \<open>Object\<close> is any
  other object: its class name and its fields.
\<close>

datatype pyval =
    PNone
  | PBool bool
  | PInt int
  | PFloat "64 word"
  | PDecimal pydecimal
  | Str string
  | Bytes string
  | PUUID pyuuid
  | PDate pydate
  | PDateTime pydatetime
  | PTime pytime
  | Timedelta int
  | PList "pyval list"
  | PTuple "pyval list"
  | PDict "(pyval \<times> pyval) list"
  | Callable "pyval option"
  | Missing
  | MISSING_TYPE
  | Object string "pyval list"

type_synonym result = "py_error + pyval"

text \<open>
  The declared type of a field: a class, or an object of the \<^verbatim>\<open>typing\<close> module with its
  \<^verbatim>\<open>_name\<close>, whether its origin is \<^verbatim>\<open>typing.Union\<close>, and its \<^verbatim>\<open>__args__\<close> (\<open>None\<close> when the
  attribute is absent).
\<close>

datatype pyclass =
    T_str | T_bytes | T_int | T_float | T_bool | T_UUID | T_date | T_datetime
  | T_timedelta | T_time | T_Decimal | T_dict | T_list | T_tuple | T_NoneType
  | T_other string

datatype pytype =
    Class pyclass
  | Typing "string option" bool "pytype list option"

text \<open>
  What \<^verbatim>\<open>pendulum.parse(text, strict=False)\<close> returns: a \<^verbatim>\<open>DateTime\<close>, or, for a text that is
  an ISO-8601 duration or interval (such as \<^verbatim>\<open>P1D\<close>), a \<^verbatim>\<open>Duration\<close> or an \<^verbatim>\<open>Interval\<close>.
  These two are durations, given here in microseconds; they are no \<^verbatim>\<open>datetime\<close> and have
  no method \<^verbatim>\<open>date\<close>.
\<close>

datatype pendulum_result = PendulumDateTime pydatetime | PendulumDuration int

text \<open>
  What the module calls and does not define: builtins, the standard library, the parsing
  libraries, and \<^verbatim>\<open>is_dataclass\<close> and \<^verbatim>\<open>is_iterable\<close> of \<^verbatim>\<open>datamodel/validation\<close>. They are
  parameters of the model. \<^verbatim>\<open>ciso8601.parse_datetime\<close> and \<^verbatim>\<open>datetime.fromisoformat\<close> return
  a \<^verbatim>\<open>datetime\<close> for a text they read and raise \<^verbatim>\<open>ValueError\<close> for any other text: \<open>None\<close>
  stands for that exception. \<^verbatim>\<open>pendulum.parse\<close> and \<^verbatim>\<open>dateutil.parser.parse\<close> return or raise
  (\<^verbatim>\<open>ParserError\<close>, which is a \<^verbatim>\<open>ValueError\<close>, and for \<^verbatim>\<open>dateutil\<close> also \<^verbatim>\<open>OverflowError\<close>).
\<close>

record runtime =
  py_str :: "pyval \<Rightarrow> string"
  py_bytes :: "pyval \<Rightarrow> py_error + string"
  py_int :: "pyval \<Rightarrow> py_error + int"
  py_float :: "pyval \<Rightarrow> py_error + 64 word"
  py_bool :: "pyval \<Rightarrow> bool"
  Decimal_new :: "pyval \<Rightarrow> py_error + pydecimal"
  UUID_new :: "string \<Rightarrow> pyuuid option"
  ciso8601_parse_datetime :: "string \<Rightarrow> pydatetime option"
  datetime_fromisoformat :: "string \<Rightarrow> pydatetime option"
  pendulum_parse :: "string \<Rightarrow> py_error + pendulum_result"
  dateutil_parse :: "string \<Rightarrow> py_error + pydatetime"
  orjson_loads :: "string \<Rightarrow> pyval option"
  distutils_strtobool :: "string \<Rightarrow> int option"
  is_dataclass :: "pytype \<Rightarrow> bool"
  is_dataclass_obj :: "pyval \<Rightarrow> bool"
  is_iterable :: "pyval \<Rightarrow> bool"
  call_kwargs :: "pytype \<Rightarrow> (pyval \<times> pyval) list \<Rightarrow> result"
  call_star :: "pytype \<Rightarrow> pyval \<Rightarrow> result"
  call_one :: "pytype \<Rightarrow> pyval \<Rightarrow> result"
  call_none :: "pytype \<Rightarrow> result"

subsection \<open>The tests of the source\<close>

definition isinstance_int :: "pyval \<Rightarrow> bool" where
  "isinstance_int v = (case v of PInt _ \<Rightarrow> True | PBool _ \<Rightarrow> True | _ \<Rightarrow> False)"

definition isinstance_bool :: "pyval \<Rightarrow> bool" where
  "isinstance_bool v = (case v of PBool _ \<Rightarrow> True | _ \<Rightarrow> False)"

definition isinstance_float_Decimal :: "pyval \<Rightarrow> bool" where
  "isinstance_float_Decimal v = (case v of PFloat _ \<Rightarrow> True | PDecimal _ \<Rightarrow> True | _ \<Rightarrow> False)"

definition isinstance_Decimal :: "pyval \<Rightarrow> bool" where
  "isinstance_Decimal v = (case v of PDecimal _ \<Rightarrow> True | _ \<Rightarrow> False)"

definition isinstance_UUID :: "pyval \<Rightarrow> bool" where
  "isinstance_UUID v = (case v of PUUID _ \<Rightarrow> True | _ \<Rightarrow> False)"

definition isinstance_date :: "pyval \<Rightarrow> bool" where
  "isinstance_date v = (case v of PDate _ \<Rightarrow> True | PDateTime _ \<Rightarrow> True | _ \<Rightarrow> False)"

definition isinstance_datetime :: "pyval \<Rightarrow> bool" where
  "isinstance_datetime v = (case v of PDateTime _ \<Rightarrow> True | _ \<Rightarrow> False)"

definition isinstance_time :: "pyval \<Rightarrow> bool" where
  "isinstance_time v = (case v of PTime _ \<Rightarrow> True | _ \<Rightarrow> False)"

definition isinstance_timedelta :: "pyval \<Rightarrow> bool" where
  "isinstance_timedelta v = (case v of Timedelta _ \<Rightarrow> True | _ \<Rightarrow> False)"

definition isinstance_dict :: "pyval \<Rightarrow> bool" where
  "isinstance_dict v = (case v of PDict _ \<Rightarrow> True | _ \<Rightarrow> False)"

definition isinstance_list :: "pyval \<Rightarrow> bool" where
  "isinstance_list v = (case v of PList _ \<Rightarrow> True | _ \<Rightarrow> False)"

definition isinstance_list_tuple :: "pyval \<Rightarrow> bool" where
  "isinstance_list_tuple v = (case v of PList _ \<Rightarrow> True | PTuple _ \<Rightarrow> True | _ \<Rightarrow> False)"

definition isinstance_MISSING_TYPE :: "pyval \<Rightarrow> bool" where
  "isinstance_MISSING_TYPE v = (v = Missing)"

definition callable :: "pyval \<Rightarrow> bool" where
  "callable v = (case v of Callable _ \<Rightarrow> True | MISSING_TYPE \<Rightarrow> True | _ \<Rightarrow> False)"

definition call :: "pyval \<Rightarrow> pyval option" where
  "call v = (case v of Callable r \<Rightarrow> r | MISSING_TYPE \<Rightarrow> Some Missing | _ \<Rightarrow> None)"

text \<open>\<^verbatim>\<open>obj.decode("ascii")\<close>: a byte above 127 raises \<^verbatim>\<open>UnicodeDecodeError\<close>.\<close>

definition decode_ascii :: "string \<Rightarrow> py_error + string" where
  "decode_ascii b = (if list_all (\<lambda>c. (of_char c :: nat) < 128) b then Inr b else Inl UnicodeDecodeError)"

text \<open>
  The statement \<^verbatim>\<open>if isinstance(obj, (bytes, bytearray)): obj = obj.decode("ascii")\<close>.
\<close>

definition decode_if_bytes :: "pyval \<Rightarrow> result" where
  "decode_if_bytes obj =
     (case obj of
        Bytes b \<Rightarrow> (case decode_ascii b of Inl e \<Rightarrow> Inl e | Inr s \<Rightarrow> Inr (Str s))
      | _ \<Rightarrow> Inr obj)"

text \<open>
  A \<^verbatim>\<open>cpdef\<close> function declared with an extension type as its return type checks every
  value it returns: \<^verbatim>\<open>None\<close> and an instance of the type pass, anything else raises
  \<^verbatim>\<open>TypeError\<close> (Cython's "Cannot convert ... to ..."). \<^verbatim>\<open>to_date\<close>, \<^verbatim>\<open>to_datetime\<close> and
  \<^verbatim>\<open>to_timedelta\<close> are declared so; the other converters return \<^verbatim>\<open>object\<close>.
\<close>

definition cy_return :: "(pyval \<Rightarrow> bool) \<Rightarrow> pyval \<Rightarrow> result" where
  "cy_return isinst v = (if v = PNone \<or> isinst v then Inr v else Inl TypeError)"

section \<open>Primitive converters\<close>

subsection \<open>Identifier\<close>

text \<open>\<^verbatim>\<open>to_uuid\<close>, lines 304-319.\<close>

definition to_uuid :: "runtime \<Rightarrow> pyval \<Rightarrow> result" where
  "to_uuid R obj =
     (if isinstance_UUID obj then Inr obj
      else case (if callable obj then call obj else None) of
          Some v \<Rightarrow> Inr v
        | None \<Rightarrow>
            (case UUID_new R (py_str R obj) of
               Some u \<Rightarrow> Inr (PUUID u)
             | None \<Rightarrow> Inr PNone))"

text \<open>\<^verbatim>\<open>to_uuid\<close> of the first variant, lines 18-27.\<close>

definition to_uuid_v1 :: "runtime \<Rightarrow> pyval \<Rightarrow> result" where
  "to_uuid_v1 R obj =
     (if isinstance_UUID obj then Inr obj
      else case UUID_new R (py_str R obj) of
          Some u \<Rightarrow> Inr (PUUID u)
        | None \<Rightarrow> Inr PNone)"

subsection \<open>Date and datetime\<close>

fun date_of :: "pydatetime \<Rightarrow> pydate" where
  "date_of (DateTime y m d _ _ _ _) = Date y m d"

text \<open>
  The last \<^verbatim>\<open>try\<close> of \<^verbatim>\<open>to_date\<close>, lines 353-358, on a text:
  \<^verbatim>\<open>pendulum.parse(obj, strict=False).date()\<close> under the handler for \<^verbatim>\<open>ValueError\<close>,
  \<^verbatim>\<open>TypeError\<close> and \<^verbatim>\<open>ParserError\<close>, which raises \<^verbatim>\<open>ValueError\<close>. Where \<^verbatim>\<open>pendulum\<close> returns a
  duration, \<^verbatim>\<open>.date()\<close> raises \<^verbatim>\<open>AttributeError\<close>, which the handler does not catch.
\<close>

definition pendulum_date :: "runtime \<Rightarrow> string \<Rightarrow> result" where
  "pendulum_date R s =
     (case pendulum_parse R s of
        Inl e \<Rightarrow> if e = TypeError \<or> isinstance_ValueError e then Inl ValueError else Inl e
      | Inr (PendulumDateTime dt) \<Rightarrow> Inr (PDate (date_of dt))
      | Inr (PendulumDuration d) \<Rightarrow> Inl AttributeError)"

text \<open>
  \<^verbatim>\<open>to_date\<close>, lines 333-358. The test for text and the fast parse (lines 342-346) come
  before the bytes are decoded (lines 347-348). \<^verbatim>\<open>datetime.datetime.fromisoformat\<close> raises
  \<^verbatim>\<open>TypeError\<close> on a value that is not text, and its handler catches \<^verbatim>\<open>ValueError\<close> only, so
  \<^verbatim>\<open>pendulum.parse\<close> is reached with a text only.
\<close>

definition to_date :: "runtime \<Rightarrow> pyval \<Rightarrow> result" where
  "to_date R obj =
     (if obj = PNone then Inr PNone
      else if isinstance_date obj then cy_return isinstance_date obj
      else case (case obj of Str s \<Rightarrow> ciso8601_parse_datetime R s | _ \<Rightarrow> None) of
          Some dt \<Rightarrow> Inr (PDate (date_of dt))
        | None \<Rightarrow>
            (case decode_if_bytes obj of
               Inl e \<Rightarrow> Inl e
             | Inr obj' \<Rightarrow>
                 (case obj' of
                    Str s \<Rightarrow>
                      (case datetime_fromisoformat R s of
                         Some dt \<Rightarrow> Inr (PDate (date_of dt))
                       | None \<Rightarrow> pendulum_date R s)
                  | _ \<Rightarrow> Inl TypeError)))"

text \<open>
  \<^verbatim>\<open>to_date\<close> of the first variant, lines 29-44: the bytes are decoded first, and the one
  parser is \<^verbatim>\<open>dateutil.parser.parse\<close> under a handler for \<^verbatim>\<open>ValueError\<close> and \<^verbatim>\<open>TypeError\<close>,
  which raises \<^verbatim>\<open>ValueError\<close>. On a value that is not text the parser raises \<^verbatim>\<open>TypeError\<close>.
\<close>

definition to_date_v1 :: "runtime \<Rightarrow> pyval \<Rightarrow> result" where
  "to_date_v1 R obj =
     (if isinstance_date obj then cy_return isinstance_date obj
      else case decode_if_bytes obj of
          Inl e \<Rightarrow> Inl e
        | Inr obj' \<Rightarrow>
            (case obj' of
               Str s \<Rightarrow>
                 (case dateutil_parse R s of
                    Inr dt \<Rightarrow> Inr (PDate (date_of dt))
                  | Inl e \<Rightarrow>
                      if e = TypeError \<or> isinstance_ValueError e then Inl ValueError else Inl e)
             | _ \<Rightarrow> Inl ValueError))"

text \<open>
  The last \<^verbatim>\<open>try\<close> of \<^verbatim>\<open>to_datetime\<close>, lines 382-387, on a text. The value \<^verbatim>\<open>pendulum\<close>
  returned is itself returned, inside the \<^verbatim>\<open>try\<close>: a duration fails the check of the
  declared return type there with \<^verbatim>\<open>TypeError\<close>, which the handler turns into \<^verbatim>\<open>ValueError\<close>.
\<close>

definition pendulum_datetime :: "runtime \<Rightarrow> string \<Rightarrow> result" where
  "pendulum_datetime R s =
     (case pendulum_parse R s of
        Inl e \<Rightarrow> if e = TypeError \<or> isinstance_ValueError e then Inl ValueError else Inl e
      | Inr (PendulumDateTime dt) \<Rightarrow> Inr (PDateTime dt)
      | Inr (PendulumDuration d) \<Rightarrow> Inl ValueError)"

text \<open>\<^verbatim>\<open>to_datetime\<close>, lines 360-387.\<close>

definition to_datetime :: "runtime \<Rightarrow> pyval \<Rightarrow> result" where
  "to_datetime R obj =
     (if obj = PNone then Inr PNone
      else if isinstance_datetime obj then cy_return isinstance_datetime obj
      else if obj = MISSING_TYPE then Inr PNone
      else case (case obj of Str s \<Rightarrow> ciso8601_parse_datetime R s | _ \<Rightarrow> None) of
          Some dt \<Rightarrow> Inr (PDateTime dt)
        | None \<Rightarrow>
            (case decode_if_bytes obj of
               Inl e \<Rightarrow> Inl e
             | Inr obj' \<Rightarrow>
                 (case obj' of
                    Str s \<Rightarrow>
                      (case datetime_fromisoformat R s of
                         Some dt \<Rightarrow> Inr (PDateTime dt)
                       | None \<Rightarrow> pendulum_datetime R s)
                  | _ \<Rightarrow> Inl TypeError)))"

subsection \<open>Integer, float, decimal\<close>

text \<open>
  \<^verbatim>\<open>to_integer\<close>, lines 389-410. A callable whose call raises leaves the \<^verbatim>\<open>try\<close> by
  \<^verbatim>\<open>pass\<close>, and the function ends without a \<^verbatim>\<open>return\<close>: the result is \<^verbatim>\<open>None\<close>.
\<close>

definition to_integer :: "runtime \<Rightarrow> pyval \<Rightarrow> result" where
  "to_integer R obj =
     (if obj = PNone then Inr PNone
      else if isinstance_int obj then Inr obj
      else if callable obj then (case call obj of Some v \<Rightarrow> Inr v | None \<Rightarrow> Inr PNone)
      else case py_int R obj of
          Inr n \<Rightarrow> Inr (PInt n)
        | Inl e \<Rightarrow> if e = TypeError \<or> isinstance_ValueError e then Inl ValueError else Inl e)"

text \<open>\<^verbatim>\<open>to_integer\<close> of the first variant, lines 63-74.\<close>

definition to_integer_v1 :: "runtime \<Rightarrow> pyval \<Rightarrow> result" where
  "to_integer_v1 R obj =
     (if isinstance_int obj then Inr obj
      else case py_int R obj of
          Inr n \<Rightarrow> Inr (PInt n)
        | Inl e \<Rightarrow> if e = TypeError \<or> isinstance_ValueError e then Inr PNone else Inl e)"

text \<open>\<^verbatim>\<open>to_float\<close>, lines 412-431.\<close>

definition to_float :: "runtime \<Rightarrow> pyval \<Rightarrow> result" where
  "to_float R obj =
     (if isinstance_float_Decimal obj then Inr obj
      else if isinstance_MISSING_TYPE obj then Inr PNone
      else if callable obj then (case call obj of Some v \<Rightarrow> Inr v | None \<Rightarrow> Inr PNone)
      else case py_float R obj of
          Inr x \<Rightarrow> Inr (PFloat x)
        | Inl e \<Rightarrow> if e = TypeError \<or> isinstance_ValueError e then Inr PNone else Inl e)"

text \<open>\<^verbatim>\<open>to_decimal\<close>, lines 433-452.\<close>

definition to_decimal :: "runtime \<Rightarrow> pyval \<Rightarrow> result" where
  "to_decimal R obj =
     (if obj = PNone then Inr PNone
      else if isinstance_Decimal obj then Inr obj
      else if callable obj then (case call obj of Some v \<Rightarrow> Inr v | None \<Rightarrow> Inr PNone)
      else case Decimal_new R obj of
          Inr x \<Rightarrow> Inr (PDecimal x)
        | Inl e \<Rightarrow> if e = TypeError \<or> isinstance_ValueError e then Inr PNone else Inl e)"

subsection \<open>Duration and time\<close>

text \<open>
  The two patterns are matched by \<^verbatim>\<open>re.match\<close>, at the start of the text and not
  necessarily up to its end. \<^verbatim>\<open>\d\<close> is a decimal digit; below code point 256 these are the
  ten ASCII digits. A greedy \<^verbatim>\<open>\d{1,n}\<close> takes the longest run of at most \<open>n\<close> digits, and
  since each group is followed by a colon, or by the optional fraction at the end of the
  pattern, giving a digit back never leads to a match the longest run does not give.
\<close>

definition is_digit :: "char \<Rightarrow> bool" where
  "is_digit c = (48 \<le> (of_char c :: nat) \<and> (of_char c :: nat) \<le> 57)"

fun take_digits :: "nat \<Rightarrow> string \<Rightarrow> string \<times> string" where
  "take_digits 0 s = ([], s)"
| "take_digits (Suc n) [] = ([], [])"
| "take_digits (Suc n) (c # s) =
     (if is_digit c then (case take_digits n s of (d, r) \<Rightarrow> (c # d, r)) else ([], c # s))"

text \<open>\<^verbatim>\<open>(\d{1,n}):\<close>: a group of one to \<open>n\<close> digits and the colon after it.\<close>

definition digits_colon :: "nat \<Rightarrow> string \<Rightarrow> (string \<times> string) option" where
  "digits_colon n s =
     (case take_digits n s of
        (d, r) \<Rightarrow>
          if d = [] then None
          else (case r of [] \<Rightarrow> None | c # r' \<Rightarrow> if c = CHR '':'' then Some (d, r') else None))"

text \<open>
  \<^verbatim>\<open>(?:.(\d{1,6}))?\<close>: any character but a newline, then one to six digits; the group is
  optional, so where it does not match its capture is \<^verbatim>\<open>None\<close>.
\<close>

definition fraction_group :: "string \<Rightarrow> string option" where
  "fraction_group s =
     (case s of
        [] \<Rightarrow> None
      | c # r \<Rightarrow>
          if c = CHR 0x0A then None
          else (case take_digits 6 r of (f, _) \<Rightarrow> if f = [] then None else Some f))"

text \<open>
  \<^verbatim>\<open>(\d{1,n}):(\d{1,2}):(\d{1,2})(?:.(\d{1,6}))?\<close>, the part the two patterns share: the
  groups hours, minutes, seconds, fraction.
\<close>

definition hms_match :: "nat \<Rightarrow> string \<Rightarrow> (string \<times> string \<times> string \<times> string option) option" where
  "hms_match n s =
     (case digits_colon n s of
        None \<Rightarrow> None
      | Some (h, s1) \<Rightarrow>
          (case digits_colon 2 s1 of
             None \<Rightarrow> None
           | Some (m, s2) \<Rightarrow>
               (case take_digits 2 s2 of
                  (sec, s3) \<Rightarrow> if sec = [] then None else Some (h, m, sec, fraction_group s3))))"

text \<open>\<^verbatim>\<open>TIME_RE.match\<close>, line 491.\<close>

definition TIME_RE_match :: "string \<Rightarrow> (string \<times> string \<times> string \<times> string option) option" where
  "TIME_RE_match s = hms_match 2 s"

text \<open>
  \<^verbatim>\<open>TIMEDELTA_RE.match\<close>, line 454: the groups sign, hours, minutes, seconds, fraction.
  The sign group is \<open>True\<close> where \<^verbatim>\<open>(-)?\<close> captured a minus.
\<close>

definition TIMEDELTA_RE_match ::
  "string \<Rightarrow> (bool \<times> string \<times> string \<times> string \<times> string option) option" where
  "TIMEDELTA_RE_match s =
     (case s of
        [] \<Rightarrow> None
      | c # r \<Rightarrow>
          if c = CHR ''-'' then map_option (Pair True) (hms_match 3 r)
          else map_option (Pair False) (hms_match 3 s))"

text \<open>\<^verbatim>\<open>int(s)\<close> for a text of ASCII digits.\<close>

definition digit_value :: "char \<Rightarrow> int" where
  "digit_value c = int (of_char c) - 48"

definition int_of_digits :: "string \<Rightarrow> int" where
  "int_of_digits s = foldl (\<lambda>a c. 10 * a + digit_value c) 0 s"

text \<open>
  \<^verbatim>\<open>int(s)\<close> for any text of code points below 256: white space around the number (the
  ASCII white space, and the code points 0x85 and 0xA0), an optional sign, and ASCII digits
  that single underscores may separate; \<^verbatim>\<open>ValueError\<close> for any other text.
\<close>

definition is_space :: "char \<Rightarrow> bool" where
  "is_space c =
     (let n = (of_char c :: nat) in (9 \<le> n \<and> n \<le> 13) \<or> n = 32 \<or> n = 133 \<or> n = 160)"

fun strip_underscores :: "string \<Rightarrow> string option" where
  "strip_underscores [] = None"
| "strip_underscores [c] = (if is_digit c then Some [c] else None)"
| "strip_underscores (c # u # s) =
     (if \<not> is_digit c then None
      else if u = CHR ''_'' then map_option ((#) c) (strip_underscores s)
      else map_option ((#) c) (strip_underscores (u # s)))"

definition int_text :: "string \<Rightarrow> py_error + int" where
  "int_text s =
     (let t = dropWhile is_space s;
          negative = (case t of [] \<Rightarrow> False | c # _ \<Rightarrow> c = CHR ''-'');
          signed = (case t of [] \<Rightarrow> False | c # _ \<Rightarrow> c = CHR ''-'' \<or> c = CHR ''+'');
          body = rev (dropWhile is_space (rev (if signed then tl t else t)))
      in case strip_underscores body of
           None \<Rightarrow> Inl ValueError
         | Some d \<Rightarrow> Inr (if negative then - int_of_digits d else int_of_digits d))"

text \<open>\<^verbatim>\<open>s.ljust(6, "0")\<close>.\<close>

definition ljust6 :: "string \<Rightarrow> string" where
  "ljust6 s = s @ replicate (6 - length s) (CHR ''0'')"

text \<open>
  \<^verbatim>\<open>_convert_second_fraction\<close>, lines 456-461. Its two callers give it a group of the
  pattern, which is \<^verbatim>\<open>None\<close> or one to six ASCII digits; on these \<^verbatim>\<open>int\<close> does not fail.
  The result has at most six digits and fits the declared \<^verbatim>\<open>int\<close> of C.
\<close>

definition convert_second_fraction :: "string option \<Rightarrow> py_error + int" where
  "convert_second_fraction g =
     (case g of
        None \<Rightarrow> Inr 0
      | Some s \<Rightarrow> if s = [] then Inr 0 else int_text (take 6 (ljust6 s)))"

text \<open>
  \<^verbatim>\<open>datetime.timedelta(hours=h, minutes=m, seconds=s, microseconds=us) * negate\<close>, in
  microseconds.
\<close>

definition timedelta_new :: "int \<Rightarrow> int \<Rightarrow> int \<Rightarrow> int \<Rightarrow> int" where
  "timedelta_new h m s us = ((h * 60 + m) * 60 + s) * 1000000 + us"

text \<open>
  \<^verbatim>\<open>to_timedelta\<close>, lines 463-489. The function is declared
  \<^verbatim>\<open>cpdef datetime.timedelta to_timedelta(object obj)\<close>, so the \<^verbatim>\<open>return obj\<close> of the branch
  without a match goes through the check of the declared return type. \<^verbatim>\<open>match\<close> on a value
  that is neither text nor bytes raises \<^verbatim>\<open>TypeError\<close>. The groups of hours, minutes and
  seconds are ASCII digits, on which \<^verbatim>\<open>int\<close> does not fail. An exception of
  \<^verbatim>\<open>_convert_second_fraction\<close> (which a \<^verbatim>\<open>cpdef int\<close> function propagates under Cython 3)
  would reach the handler for \<^verbatim>\<open>ValueError\<close>, which raises \<^verbatim>\<open>ValueError\<close>; on the group of
  the pattern there is none (lemma \<open>convert_second_fraction_group\<close> below).
\<close>

definition to_timedelta :: "pyval \<Rightarrow> result" where
  "to_timedelta obj =
     (case decode_if_bytes obj of
        Inl e \<Rightarrow> Inl e
      | Inr obj' \<Rightarrow>
          (case obj' of
             Str s \<Rightarrow>
               (case TIMEDELTA_RE_match s of
                  None \<Rightarrow> cy_return isinstance_timedelta obj'
                | Some (sign, hours, minutes, seconds, fraction) \<Rightarrow>
                    (case convert_second_fraction fraction of
                       Inl e \<Rightarrow> if isinstance_ValueError e then Inl ValueError else Inl e
                     | Inr microseconds \<Rightarrow>
                         (let negate = (if sign then - 1 else 1)
                          in Inr (Timedelta
                               (timedelta_new (int_of_digits hours) (int_of_digits minutes)
                                  (int_of_digits seconds) microseconds * negate)))))
           | _ \<Rightarrow> Inl TypeError))"

text \<open>
  \<^verbatim>\<open>to_timedelta\<close> of the first variant, lines 113-137: the same statements, but for the
  handler for \<^verbatim>\<open>ValueError\<close>, which returns \<^verbatim>\<open>obj\<close>, again through the check of the declared
  return type.
\<close>

definition to_timedelta_v1 :: "pyval \<Rightarrow> result" where
  "to_timedelta_v1 obj =
     (case decode_if_bytes obj of
        Inl e \<Rightarrow> Inl e
      | Inr obj' \<Rightarrow>
          (case obj' of
             Str s \<Rightarrow>
               (case TIMEDELTA_RE_match s of
                  None \<Rightarrow> cy_return isinstance_timedelta obj'
                | Some (sign, hours, minutes, seconds, fraction) \<Rightarrow>
                    (case convert_second_fraction fraction of
                       Inl e \<Rightarrow>
                         if isinstance_ValueError e then cy_return isinstance_timedelta obj'
                         else Inl e
                     | Inr microseconds \<Rightarrow>
                         (let negate = (if sign then - 1 else 1)
                          in Inr (Timedelta
                               (timedelta_new (int_of_digits hours) (int_of_digits minutes)
                                  (int_of_digits seconds) microseconds * negate)))))
           | _ \<Rightarrow> Inl TypeError))"

text \<open>\<^verbatim>\<open>obj.split(':')\<close> on a text.\<close>

fun split_colon :: "string \<Rightarrow> string list" where
  "split_colon [] = [[]]"
| "split_colon (c # s) =
     (if c = CHR '':'' then [] # split_colon s
      else (case split_colon s of p # ps \<Rightarrow> (c # p) # ps | [] \<Rightarrow> [[c]]))"

text \<open>A loop that stops at the first exception.\<close>

fun map_result :: "('a \<Rightarrow> py_error + 'b) \<Rightarrow> 'a list \<Rightarrow> py_error + 'b list" where
  "map_result f [] = Inr []"
| "map_result f (x # xs) =
     (case f x of
        Inl e \<Rightarrow> Inl e
      | Inr y \<Rightarrow> (case map_result f xs of Inl e \<Rightarrow> Inl e | Inr ys \<Rightarrow> Inr (y # ys)))"

text \<open>
  The fields of a \<^verbatim>\<open>datetime.time\<close>, each in its range: \<open>None\<close> where a field is out of
  range, for which the constructor raises \<^verbatim>\<open>ValueError\<close>.
\<close>

definition time_fields :: "int \<Rightarrow> int \<Rightarrow> int \<Rightarrow> int \<Rightarrow> pytime option" where
  "time_fields h m s us =
     (if 0 \<le> h \<and> h < 24 \<and> 0 \<le> m \<and> m < 60 \<and> 0 \<le> s \<and> s < 60 \<and> 0 \<le> us \<and> us < 1000000
      then Some (Time h m s us) else None)"

text \<open>An integer that fits the \<^verbatim>\<open>int\<close> of C, of 32 bits.\<close>

definition c_int :: "int \<Rightarrow> bool" where
  "c_int n = (- 2147483648 \<le> n \<and> n \<le> 2147483647)"

text \<open>
  \<^verbatim>\<open>datetime.time(*args)\<close> on integers, in the order of the checks of CPython. More than
  six arguments are refused with \<^verbatim>\<open>TypeError\<close>. The first four arguments (hour, minute,
  second, microsecond) are read as \<^verbatim>\<open>int\<close> of C: \<^verbatim>\<open>OverflowError\<close> for one that does not
  fit. A sixth argument is then refused with \<^verbatim>\<open>TypeError\<close>. Then the fields are checked
  (\<^verbatim>\<open>ValueError\<close>), and a fifth argument, which is an integer and no time zone, is refused
  with \<^verbatim>\<open>TypeError\<close>.
\<close>

definition time_new :: "int list \<Rightarrow> py_error + pytime" where
  "time_new args =
     (if 6 < length args then Inl TypeError
      else if \<not> list_all c_int (take 4 args) then Inl OverflowError
      else if 5 < length args then Inl TypeError
      else case (case args of
                   [] \<Rightarrow> time_fields 0 0 0 0
                 | [h] \<Rightarrow> time_fields h 0 0 0
                 | [h, m] \<Rightarrow> time_fields h m 0 0
                 | [h, m, s] \<Rightarrow> time_fields h m s 0
                 | h # m # s # us # _ \<Rightarrow> time_fields h m s us) of
             None \<Rightarrow> Inl ValueError
           | Some t \<Rightarrow> if length args = 5 then Inl TypeError else Inr t)"

text \<open>
  The first \<^verbatim>\<open>try\<close> of \<^verbatim>\<open>to_time\<close>: \<^verbatim>\<open>datetime.time(*map(int, obj.split(':')))\<close> under its
  handler for \<^verbatim>\<open>ValueError\<close> and \<^verbatim>\<open>TypeError\<close>. \<open>Inr None\<close> is the handler's \<^verbatim>\<open>pass\<close>; an
  \<^verbatim>\<open>OverflowError\<close> of the constructor is not handled. A text has \<^verbatim>\<open>split\<close>; \<^verbatim>\<open>bytes.split\<close>
  refuses a text separator with \<^verbatim>\<open>TypeError\<close>; the other values have no \<^verbatim>\<open>split\<close> and raise
  \<^verbatim>\<open>AttributeError\<close>, which is not handled.
\<close>

definition time_of_split :: "runtime \<Rightarrow> pyval \<Rightarrow> py_error + pytime option" where
  "time_of_split R obj =
     (case obj of
        Str s \<Rightarrow>
          (case map_result (\<lambda>p. py_int R (Str p)) (split_colon s) of
             Inl e \<Rightarrow> if e = TypeError \<or> isinstance_ValueError e then Inr None else Inl e
           | Inr args \<Rightarrow>
               (case time_new args of
                  Inr t \<Rightarrow> Inr (Some t)
                | Inl e \<Rightarrow> if e = TypeError \<or> isinstance_ValueError e then Inr None else Inl e))
      | Bytes _ \<Rightarrow> Inr None
      | _ \<Rightarrow> Inl AttributeError)"

text \<open>
  The second \<^verbatim>\<open>try\<close> of \<^verbatim>\<open>to_time\<close>, lines 516-525, on the groups of a match: the fields
  have at most two digits and the fraction at most six, so the constructor raises nothing
  but \<^verbatim>\<open>ValueError\<close>, for a field out of range.
\<close>

definition time_of_groups ::
  "string \<Rightarrow> string \<Rightarrow> string \<Rightarrow> string option \<Rightarrow> py_error + pytime" where
  "time_of_groups hours minutes seconds fraction =
     (case convert_second_fraction fraction of
        Inl e \<Rightarrow> Inl e
      | Inr microseconds \<Rightarrow>
          (case time_fields (int_of_digits hours) (int_of_digits minutes)
                  (int_of_digits seconds) microseconds of
             Some t \<Rightarrow> Inr t
           | None \<Rightarrow> Inl ValueError))"

text \<open>\<^verbatim>\<open>to_time\<close>, lines 493-529.\<close>

definition to_time :: "runtime \<Rightarrow> pyval \<Rightarrow> result" where
  "to_time R obj =
     (if obj = PNone then Inr PNone
      else if isinstance_time obj then Inr obj
      else if callable obj then (case call obj of Some v \<Rightarrow> Inr v | None \<Rightarrow> Inr PNone)
      else case time_of_split R obj of
          Inl e \<Rightarrow> Inl e
        | Inr (Some t) \<Rightarrow> Inr (PTime t)
        | Inr None \<Rightarrow>
            (case obj of
               Str s \<Rightarrow>
                 (case TIME_RE_match s of
                    None \<Rightarrow> Inr obj
                  | Some (hours, minutes, seconds, fraction) \<Rightarrow>
                      (case time_of_groups hours minutes seconds fraction of
                         Inr t \<Rightarrow> Inr (PTime t)
                       | Inl e \<Rightarrow>
                           if e = TypeError \<or> isinstance_ValueError e then Inl ValueError
                           else Inl e))
             | _ \<Rightarrow> Inl TypeError))"

subsection \<open>Boolean\<close>

text \<open>
  \<^verbatim>\<open>val.lower()\<close> on code points below 256: the ASCII capitals and the Latin-1 capitals
  (0xC0-0xDE but the multiplication sign 0xD7) move up by 32.
\<close>

definition lower_char :: "char \<Rightarrow> char" where
  "lower_char c =
     (let n = (of_char c :: nat)
      in if (65 \<le> n \<and> n \<le> 90) \<or> (192 \<le> n \<and> n \<le> 222 \<and> n \<noteq> 215) then char_of (n + 32) else c)"

definition lower :: "string \<Rightarrow> string" where
  "lower s = map lower_char s"

text \<open>\<^verbatim>\<open>strtobool\<close>, lines 532-547.\<close>

definition strtobool :: "string \<Rightarrow> result" where
  "strtobool val0 =
     (let val = lower val0
      in if val \<in> set [''y'', ''yes'', ''t'', ''true'', ''on'', ''1''] then Inr (PBool True)
         else if val \<in> set [''n'', ''no'', ''f'', ''false'', ''off'', ''0''] then Inr (PBool False)
         else Inl ValueError)"

text \<open>\<^verbatim>\<open>to_boolean\<close>, lines 549-569.\<close>

definition to_boolean :: "runtime \<Rightarrow> pyval \<Rightarrow> result" where
  "to_boolean R obj =
     (if obj = PNone then Inr (PBool False)
      else if isinstance_bool obj then Inr obj
      else case decode_if_bytes obj of
          Inl e \<Rightarrow> Inl e
        | Inr obj' \<Rightarrow>
            (case obj' of
               Str s \<Rightarrow> strtobool s
             | _ \<Rightarrow>
                 if callable obj' then (case call obj' of Some v \<Rightarrow> Inr v | None \<Rightarrow> Inr PNone)
                 else Inr (PBool (py_bool R obj'))))"

subsection \<open>Object\<close>

text \<open>\<^verbatim>\<open>to_object\<close>, lines 571-590.\<close>

definition to_object :: "runtime \<Rightarrow> pyval \<Rightarrow> result" where
  "to_object R obj =
     (if obj = PNone then Inr PNone
      else if isinstance_list_tuple obj \<or> isinstance_dict obj then Inr obj
      else if callable obj then (case call obj of Some v \<Rightarrow> Inr v | None \<Rightarrow> Inr PNone)
      else case obj of
          Str s \<Rightarrow> (case orjson_loads R s of Some v \<Rightarrow> Inr v | None \<Rightarrow> Inr PNone)
        | _ \<Rightarrow> Inl ValueError)"

section \<open>The encoder registry and the coercion of primitives\<close>

text \<open>\<^verbatim>\<open>encoders\<close>, lines 592-605: a dictionary from a class to its converter.\<close>

definition encoders :: "runtime \<Rightarrow> pyclass \<Rightarrow> (pyval \<Rightarrow> result) option" where
  "encoders R c =
     (case c of
        T_UUID \<Rightarrow> Some (to_uuid R)
      | T_bool \<Rightarrow> Some (to_boolean R)
      | T_int \<Rightarrow> Some (to_integer R)
      | T_float \<Rightarrow> Some (to_float R)
      | T_date \<Rightarrow> Some (to_date R)
      | T_datetime \<Rightarrow> Some (to_datetime R)
      | T_timedelta \<Rightarrow> Some to_timedelta
      | T_time \<Rightarrow> Some (to_time R)
      | T_Decimal \<Rightarrow> Some (to_decimal R)
      | T_dict \<Rightarrow> Some (to_object R)
      | T_list \<Rightarrow> Some (to_object R)
      | T_tuple \<Rightarrow> Some (to_object R)
      | _ \<Rightarrow> None)"

text \<open>\<^verbatim>\<open>encoders[T]\<close>: an object of \<^verbatim>\<open>typing\<close> is no key of the dictionary.\<close>

definition lookup_encoder :: "runtime \<Rightarrow> pytype \<Rightarrow> (pyval \<Rightarrow> result) option" where
  "lookup_encoder R T = (case T of Class c \<Rightarrow> encoders R c | Typing _ _ _ \<Rightarrow> None)"

text \<open>
  A call of the \<^verbatim>\<open>encoder\<close> argument under its handler, which raises \<^verbatim>\<open>ValueError\<close> again.
\<close>

definition call_encoder :: "(pyval \<Rightarrow> result) \<Rightarrow> pyval \<Rightarrow> result" where
  "call_encoder f data =
     (case f data of
        Inr v \<Rightarrow> Inr v
      | Inl e \<Rightarrow> if isinstance_ValueError e then Inl ValueError else Inl e)"

text \<open>
  \<^verbatim>\<open>parse_basic\<close>, lines 760-789. A function that ends without \<^verbatim>\<open>return\<close> gives \<^verbatim>\<open>None\<close>.
\<close>

definition parse_basic :: "runtime \<Rightarrow> pytype \<Rightarrow> pyval \<Rightarrow> (pyval \<Rightarrow> result) option \<Rightarrow> result" where
  "parse_basic R T data encoder =
     (if T = Class T_str then Inr (Str (py_str R data))
      else if T = Class T_bytes then
        (case py_bytes R data of Inl e \<Rightarrow> Inl e | Inr b \<Rightarrow> Inr (Bytes b))
      else
        (let after = (case encoder of Some f \<Rightarrow> call_encoder f data | None \<Rightarrow> Inr PNone)
         in case lookup_encoder R T of
              None \<Rightarrow> after
            | Some conv \<Rightarrow>
                (case conv data of
                   Inr v \<Rightarrow> Inr v
                 | Inl e \<Rightarrow>
                     if e = KeyError then after
                     else if e = TypeError \<or> isinstance_ValueError e then Inl ValueError
                     else Inl e)))"

section \<open>The coercion engine\<close>

text \<open>
  \<^verbatim>\<open>args[i]\<close> on a tuple: \<^verbatim>\<open>IndexError\<close> out of range.
\<close>

definition subscript :: "'a list \<Rightarrow> nat \<Rightarrow> py_error + 'a" where
  "subscript xs i = (if i < length xs then Inr (xs ! i) else Inl IndexError)"

text \<open>\<^verbatim>\<open>get_args(T)\<close>: the arguments of \<open>T\<close>, the empty tuple when it has none.\<close>

definition get_args :: "pytype list option \<Rightarrow> pytype list" where
  "get_args a = (case a of None \<Rightarrow> [] | Some args \<Rightarrow> args)"

text \<open>The items a \<^verbatim>\<open>for\<close> loop visits in a list or a tuple.\<close>

definition elements :: "pyval \<Rightarrow> pyval list" where
  "elements v = (case v of PList xs \<Rightarrow> xs | PTuple xs \<Rightarrow> xs | _ \<Rightarrow> [])"

text \<open>
  \<^verbatim>\<open>callable(t)\<close> and \<^verbatim>\<open>inspect.isclass(T)\<close> on a declared type: a class and a generic
  alias of \<^verbatim>\<open>typing\<close> are callable, and every \<open>Class\<close> is a class.
\<close>

definition callable_type :: "pytype \<Rightarrow> bool" where
  "callable_type t = True"

text \<open>The body of the loop of lines 626-632.\<close>

definition construct_nested :: "runtime \<Rightarrow> pytype \<Rightarrow> pyval \<Rightarrow> result" where
  "construct_nested R t x =
     (case x of
        PDict items \<Rightarrow> call_kwargs R t items
      | PList _ \<Rightarrow> call_star R t x
      | PTuple _ \<Rightarrow> call_star R t x
      | _ \<Rightarrow> call_none R t)"

text \<open>The body of the loop of lines 641-650.\<close>

definition construct_item :: "runtime \<Rightarrow> pytype \<Rightarrow> pyval \<Rightarrow> result" where
  "construct_item R arg_type d =
     (if is_dataclass_obj R d then Inr d
      else case d of
          PList _ \<Rightarrow> call_star R arg_type d
        | PDict items \<Rightarrow> call_kwargs R arg_type items
        | _ \<Rightarrow> call_one R arg_type d)"

text \<open>The body of the loop of lines 688-692.\<close>

definition construct_optional_item :: "runtime \<Rightarrow> pytype \<Rightarrow> pyval \<Rightarrow> result" where
  "construct_optional_item R arg x =
     (case x of PDict items \<Rightarrow> call_kwargs R arg items | _ \<Rightarrow> call_star R arg x)"

text \<open>Lines 726-733: a dataclass built from a mapping, a sequence or one value.\<close>

definition construct :: "runtime \<Rightarrow> pytype \<Rightarrow> pyval \<Rightarrow> result" where
  "construct R T data =
     (case data of
        PDict items \<Rightarrow> call_kwargs R T items
      | PList _ \<Rightarrow> call_star R T data
      | PTuple _ \<Rightarrow> call_star R T data
      | _ \<Rightarrow> call_one R T data)"

text \<open>
  Lines 745-757, the last conversion: the constructor of the class under a handler for
  \<^verbatim>\<open>TypeError\<close> and \<^verbatim>\<open>ValueError\<close> that logs the error and keeps \<^verbatim>\<open>data\<close>.
\<close>

definition last_conversion :: "runtime \<Rightarrow> pytype \<Rightarrow> pyval \<Rightarrow> result" where
  "last_conversion R T data =
     (case (case data of
              PDict items \<Rightarrow> call_kwargs R T items
            | PList _ \<Rightarrow> call_star R T data
            | PTuple _ \<Rightarrow> call_star R T data
            | Str _ \<Rightarrow> call_one R T data
            | _ \<Rightarrow> Inr data) of
        Inr v \<Rightarrow> Inr v
      | Inl e \<Rightarrow> if e = TypeError \<or> isinstance_ValueError e then Inr data else Inl e)"

definition list_result :: "py_error + pyval list \<Rightarrow> result" where
  "list_result r = (case r of Inl e \<Rightarrow> Inl e | Inr xs \<Rightarrow> Inr (PList xs))"

text \<open>
  The handler \<^verbatim>\<open>except KeyError: pass\<close> of line 715: the function then ends without a
  \<^verbatim>\<open>return\<close>.
\<close>

definition keyerror_pass :: "result \<Rightarrow> result" where
  "keyerror_pass r = (case r of Inl e \<Rightarrow> if e = KeyError then Inr PNone else Inl e | Inr v \<Rightarrow> Inr v)"

text \<open>
  Lines 671-714, the branch of a union that is not an optional: \<open>t\<close> is its first
  argument.
\<close>

definition parse_union :: "runtime \<Rightarrow> pytype \<Rightarrow> pyval \<Rightarrow> result" where
  "parse_union R t data =
     (if is_dataclass R t then
        (case data of
           PDict items \<Rightarrow> call_kwargs R t items
         | PList _ \<Rightarrow> call_star R t data
         | PTuple _ \<Rightarrow> call_star R t data
         | _ \<Rightarrow> Inr data)
      else if callable_type t then
        (case t of
           Typing tname _ targs \<Rightarrow>
             if tname = Some ''List'' \<and> isinstance_list data then
               (case (case targs of None \<Rightarrow> Inl AttributeError | Some ta \<Rightarrow> subscript ta 0) of
                  Inl e \<Rightarrow> Inl e
                | Inr arg \<Rightarrow>
                    if is_dataclass R arg then
                      list_result (map_result (construct_optional_item R arg) (elements data))
                    else Inr data)
             else Inr data
         | Class c \<Rightarrow>
             if c = T_str then Inr data
             else (case encoders R c of
                     None \<Rightarrow> Inr data
                   | Some fn \<Rightarrow>
                       if data \<noteq> PNone then
                         (case fn data of
                            Inr v \<Rightarrow> Inr v
                          | Inl e \<Rightarrow>
                              if e = TypeError then Inr data
                              else if isinstance_ValueError e \<or> e = RuntimeError then Inl ValueError
                              else if e = KeyError then Inr data
                              else Inl e)
                       else Inr data))
      else Inr data)"

lemma map_result_cong [fundef_cong]:
  "xs = ys \<Longrightarrow> (\<And>x. x \<in> set ys \<Longrightarrow> f x = g x) \<Longrightarrow> map_result f xs = map_result g ys"
  by (induction ys arbitrary: xs) (auto split: sum.splits)

lemma subscript_size:
  assumes "subscript xs i = Inr (b::pytype)"
  shows "size b < Suc (size_list size xs)"
proof -
  from assms have "b \<in> set xs"
    by (auto simp: subscript_def split: if_splits)
  then have "size b \<le> size_list size xs"
    by (rule size_list_estimation') simp
  then show ?thesis by simp
qed

text \<open>
  \<^verbatim>\<open>parse_type\<close>, lines 607-758. Where no branch returns, the function ends without a
  \<^verbatim>\<open>return\<close> and gives \<^verbatim>\<open>None\<close>: the final \<^verbatim>\<open>return data\<close> of line 758 belongs to the
  \<^verbatim>\<open>else\<close> of line 717, the branch of a type that is not of \<^verbatim>\<open>typing\<close>. The dictionary
  comprehension of line 616 calls \<^verbatim>\<open>parse_type\<close> with no encoder.
\<close>

function parse_type :: "runtime \<Rightarrow> pytype \<Rightarrow> pyval \<Rightarrow> (pyval \<Rightarrow> result) option \<Rightarrow> result" where
  "parse_type R T data encoder =
     (case T of
        Typing name is_union args \<Rightarrow>
          (if name = Some ''Dict'' \<and> isinstance_dict data then
             (if args \<noteq> None \<and> args \<noteq> Some [] then
                (case map_result
                        (\<lambda>(k, v). case subscript (get_args args) 1 of
                             Inl e \<Rightarrow> Inl e
                           | Inr value_type \<Rightarrow>
                               (case parse_type R value_type v None of
                                  Inl e \<Rightarrow> Inl e
                                | Inr v' \<Rightarrow> Inr (k, v')))
                        (case data of PDict items \<Rightarrow> items | _ \<Rightarrow> []) of
                   Inl e \<Rightarrow> Inl e
                 | Inr items' \<Rightarrow> Inr (PDict items'))
              else Inr PNone)
           else if name = Some ''List'' then
             (let data = (if isinstance_list_tuple data then data else PList [data])
              in case (case args of None \<Rightarrow> Inl TypeError | Some a \<Rightarrow> subscript a 0) of
                   Inl e \<Rightarrow> Inl e
                 | Inr arg_type \<Rightarrow>
                     (case arg_type of
                        Typing _ _ nested_args \<Rightarrow>
                          (case nested_args of
                             None \<Rightarrow> Inr data
                           | Some na \<Rightarrow>
                               (case subscript na 0 of
                                  Inl e \<Rightarrow> Inl e
                                | Inr t \<Rightarrow>
                                    if is_dataclass R t then
                                      (case map_result (construct_nested R t) (elements data) of
                                         Inl e \<Rightarrow> if e = AttributeError then Inr data else Inl e
                                       | Inr result \<Rightarrow> Inr (PList result))
                                    else Inr data))
                      | Class _ \<Rightarrow>
                          if is_dataclass R arg_type then
                            (if isinstance_list data then
                               list_result (map_result (construct_item R arg_type) (elements data))
                             else Inl UnboundLocalError)
                          else if is_iterable R data then
                            list_result
                              (map_result (\<lambda>item. parse_type R arg_type item encoder) (elements data))
                          else Inr data))
           else if name = None \<or> name = Some ''Optional'' \<or> name = Some ''Union'' then
             (if is_union \<and> Class T_NoneType \<in> set (get_args args) then
                (if data = PNone then Inr PNone
                 else case subscript (get_args args) 1 of
                     Inl e \<Rightarrow> Inl e
                   | Inr second \<Rightarrow>
                       (case (if second = Class T_NoneType then subscript (get_args args) 0
                              else Inr second) of
                          Inl e \<Rightarrow> Inl e
                        | Inr non_none_arg \<Rightarrow> parse_type R non_none_arg data encoder))
              else case subscript (get_args args) 0 of
                  Inl e \<Rightarrow> Inl e
                | Inr t \<Rightarrow> keyerror_pass (parse_union R t data))
           else Inr PNone)
      | Class c \<Rightarrow>
          (case encoder of
             Some f \<Rightarrow> call_encoder f data
           | None \<Rightarrow>
               if is_dataclass R T then construct R T data
               else
                 (case encoders R c of
                    None \<Rightarrow> last_conversion R T data
                  | Some conv \<Rightarrow>
                      (case conv data of
                         Inr v \<Rightarrow> Inr v
                       | Inl e \<Rightarrow>
                           if e = KeyError then last_conversion R T data
                           else if e = TypeError \<or> isinstance_ValueError e then Inl ValueError
                           else Inl e))))"
  by pat_completeness auto
termination
proof (relation "measure (\<lambda>(R, T, data, encoder). size T)", goal_cases)
  case 1
  show ?case by simp
next
  case (2 R T data encoder name is_union args x k v b)
  from 2(3) obtain a where a: "args = Some a" by (cases args) auto
  from 2(6) a have "size b < Suc (size_list size a)"
    by (auto simp: get_args_def dest: subscript_size)
  with 2(1) a show ?case by simp
next
  case (3 R T data encoder name is_union args x b c item)
  from 3(5) obtain a where a: "args = Some a" and s: "subscript a 0 = Inr b"
    by (cases args) auto
  from s have "size b < Suc (size_list size a)" by (rule subscript_size)
  with 3(1) a show ?case by simp
next
  case (4 R T data encoder name is_union args b ba)
  from 4(5) obtain a where a: "args = Some a" by (cases args) (auto simp: get_args_def)
  from 4(7,8) a have "subscript a 1 = Inr ba \<or> subscript a 0 = Inr ba"
    by (auto simp: get_args_def split: if_splits)
  then have "size ba < Suc (size_list size a)" by (auto dest: subscript_size)
  with 4(1) a show ?case by simp
qed

declare parse_type.simps [simp del]

section \<open>The first variant\<close>

text \<open>
  The converters of lines 1-284 that are not given above, its registry and its
  \<^verbatim>\<open>parse_type\<close>. This variant has no branch for \<^verbatim>\<open>None\<close> or for a value-producer, and its
  \<^verbatim>\<open>strtobool\<close> is the one of \<^verbatim>\<open>distutils.util\<close>, which returns the integers 1 and 0.
\<close>

text \<open>\<^verbatim>\<open>to_datetime\<close>, lines 46-61.\<close>

definition to_datetime_v1 :: "runtime \<Rightarrow> pyval \<Rightarrow> result" where
  "to_datetime_v1 R obj =
     (if isinstance_datetime obj then cy_return isinstance_datetime obj
      else case decode_if_bytes obj of
          Inl e \<Rightarrow> Inl e
        | Inr obj' \<Rightarrow>
            (case obj' of
               Str s \<Rightarrow>
                 (case dateutil_parse R s of
                    Inr dt \<Rightarrow> Inr (PDateTime dt)
                  | Inl e \<Rightarrow>
                      if e = TypeError \<or> isinstance_ValueError e then Inl ValueError else Inl e)
             | _ \<Rightarrow> Inl ValueError))"

text \<open>\<^verbatim>\<open>to_float\<close>, lines 76-89.\<close>

definition to_float_v1 :: "runtime \<Rightarrow> pyval \<Rightarrow> result" where
  "to_float_v1 R obj =
     (if isinstance_float_Decimal obj then Inr obj
      else if isinstance_MISSING_TYPE obj then Inr PNone
      else case py_float R obj of
          Inr x \<Rightarrow> Inr (PFloat x)
        | Inl e \<Rightarrow> if e = TypeError \<or> isinstance_ValueError e then Inr PNone else Inl e)"

text \<open>\<^verbatim>\<open>to_decimal\<close>, lines 91-102.\<close>

definition to_decimal_v1 :: "runtime \<Rightarrow> pyval \<Rightarrow> result" where
  "to_decimal_v1 R obj =
     (if isinstance_Decimal obj then Inr obj
      else case Decimal_new R obj of
          Inr x \<Rightarrow> Inr (PDecimal x)
        | Inl e \<Rightarrow> if e = TypeError \<or> isinstance_ValueError e then Inr PNone else Inl e)"

text \<open>
  \<^verbatim>\<open>to_time\<close>, lines 141-167: where the fields of the match are out of range, the handler
  returns \<^verbatim>\<open>obj\<close>.
\<close>

definition to_time_v1 :: "runtime \<Rightarrow> pyval \<Rightarrow> result" where
  "to_time_v1 R obj =
     (if isinstance_time obj then Inr obj
      else case time_of_split R obj of
          Inl e \<Rightarrow> Inl e
        | Inr (Some t) \<Rightarrow> Inr (PTime t)
        | Inr None \<Rightarrow>
            (case obj of
               Str s \<Rightarrow>
                 (case TIME_RE_match s of
                    None \<Rightarrow> Inr obj
                  | Some (hours, minutes, seconds, fraction) \<Rightarrow>
                      (case time_of_groups hours minutes seconds fraction of
                         Inr t \<Rightarrow> Inr (PTime t)
                       | Inl e \<Rightarrow> if isinstance_ValueError e then Inr obj else Inl e))
             | _ \<Rightarrow> Inl TypeError))"

text \<open>\<^verbatim>\<open>to_boolean\<close>, lines 169-181.\<close>

definition to_boolean_v1 :: "runtime \<Rightarrow> pyval \<Rightarrow> result" where
  "to_boolean_v1 R obj =
     (if isinstance_bool obj then Inr obj
      else case decode_if_bytes obj of
          Inl e \<Rightarrow> Inl e
        | Inr obj' \<Rightarrow>
            (case obj' of
               Str s \<Rightarrow>
                 (case distutils_strtobool R s of
                    Some n \<Rightarrow> Inr (PInt n)
                  | None \<Rightarrow> Inl ValueError)
             | _ \<Rightarrow> Inr (PBool (py_bool R obj'))))"

text \<open>\<^verbatim>\<open>to_object\<close>, lines 183-194.\<close>

definition to_object_v1 :: "runtime \<Rightarrow> pyval \<Rightarrow> result" where
  "to_object_v1 R obj =
     (if isinstance_list obj \<or> isinstance_dict obj then Inr obj
      else case obj of
          Str s \<Rightarrow> (case orjson_loads R s of Some v \<Rightarrow> Inr v | None \<Rightarrow> Inr PNone)
        | _ \<Rightarrow> Inl ValueError)"

text \<open>
  \<^verbatim>\<open>encoders\<close>, lines 196-209. The class \<^verbatim>\<open>numpy.int64\<close> is the \<open>T_other\<close> of that name.
\<close>

definition encoders_v1 :: "runtime \<Rightarrow> pyclass \<Rightarrow> (pyval \<Rightarrow> result) option" where
  "encoders_v1 R c =
     (case c of
        T_UUID \<Rightarrow> Some (to_uuid_v1 R)
      | T_bool \<Rightarrow> Some (to_boolean_v1 R)
      | T_int \<Rightarrow> Some (to_integer_v1 R)
      | T_float \<Rightarrow> Some (to_float_v1 R)
      | T_other n \<Rightarrow> if n = ''numpy.int64'' then Some (to_integer_v1 R) else None
      | T_date \<Rightarrow> Some (to_date_v1 R)
      | T_datetime \<Rightarrow> Some (to_datetime_v1 R)
      | T_timedelta \<Rightarrow> Some to_timedelta_v1
      | T_time \<Rightarrow> Some (to_time_v1 R)
      | T_Decimal \<Rightarrow> Some (to_decimal_v1 R)
      | T_dict \<Rightarrow> Some (to_object_v1 R)
      | T_list \<Rightarrow> Some (to_object_v1 R)
      | _ \<Rightarrow> None)"

text \<open>
  \<^verbatim>\<open>parse_type\<close>, lines 211-284. The flag of a \<open>Typing\<close> stands here for the test
  \<^verbatim>\<open>isinstance(T.__origin__, type(Union))\<close>. As in the second variant, the final
  \<^verbatim>\<open>return data\<close> (line 284) belongs to the branch of a type that is not of \<^verbatim>\<open>typing\<close>, and
  the branches of \<^verbatim>\<open>typing\<close> that return nothing give \<^verbatim>\<open>None\<close>.
\<close>

function parse_type_v1 :: "runtime \<Rightarrow> pytype \<Rightarrow> pyval \<Rightarrow> (pyval \<Rightarrow> result) option \<Rightarrow> result" where
  "parse_type_v1 R T data encoder =
     (case T of
        Typing name is_union args \<Rightarrow>
          (if name = Some ''Dict'' \<and> isinstance_dict data then
             (case map_result
                     (\<lambda>(k, v). case (case args of None \<Rightarrow> Inl AttributeError
                                             | Some a \<Rightarrow> subscript a 1) of
                          Inl e \<Rightarrow> Inl e
                        | Inr value_type \<Rightarrow>
                            (case parse_type_v1 R value_type v None of
                               Inl e \<Rightarrow> Inl e
                             | Inr v' \<Rightarrow> Inr (k, v')))
                     (case data of PDict items \<Rightarrow> items | _ \<Rightarrow> []) of
                Inl e \<Rightarrow> Inl e
              | Inr items' \<Rightarrow> Inr (PDict items'))
           else if name = Some ''List'' \<and> isinstance_list_tuple data then
             (case (case args of None \<Rightarrow> Inl TypeError | Some a \<Rightarrow> subscript a 0) of
                Inl e \<Rightarrow> Inl e
              | Inr arg \<Rightarrow>
                  (case arg of
                     Typing _ _ nested_args \<Rightarrow>
                       (case nested_args of
                          None \<Rightarrow> Inr data
                        | Some na \<Rightarrow>
                            (case subscript na 0 of
                               Inl e \<Rightarrow> Inl e
                             | Inr t \<Rightarrow>
                                 if is_dataclass R t then
                                   (case map_result (construct_optional_item R t)
                                           (elements data) of
                                      Inl e \<Rightarrow> if e = AttributeError then Inr data else Inl e
                                    | Inr result \<Rightarrow> Inr (PList result))
                                 else Inr data))
                   | Class _ \<Rightarrow>
                       if is_dataclass R arg then
                         list_result (map_result (call_star R arg) (elements data))
                       else Inr data))
           else if name = None then
             (if is_union then
                (case (case args of None \<Rightarrow> Inl TypeError | Some a \<Rightarrow> subscript a 0) of
                   Inl e \<Rightarrow> Inl e
                 | Inr t \<Rightarrow>
                     if is_dataclass R t then
                       (case data of
                          PDict items \<Rightarrow> call_kwargs R t items
                        | PList _ \<Rightarrow> call_star R t data
                        | PTuple _ \<Rightarrow> call_star R t data
                        | _ \<Rightarrow> Inr PNone)
                     else Inr data)
              else Inr PNone)
           else Inr PNone)
      | Class c \<Rightarrow>
          (case encoder of
             Some f \<Rightarrow> call_encoder f data
           | None \<Rightarrow>
               if is_dataclass R T then construct R T data
               else if c = T_str then Inr (Str (py_str R data))
               else
                 (case encoders_v1 R c of
                    None \<Rightarrow> Inr data
                  | Some conv \<Rightarrow>
                      (case conv data of
                         Inr v \<Rightarrow> Inr v
                       | Inl e \<Rightarrow>
                           if e = KeyError then Inr data
                           else if isinstance_ValueError e then Inl ValueError
                           else Inl e))))"
  by pat_completeness auto
termination
proof (relation "measure (\<lambda>(R, T, data, encoder). size T)", goal_cases)
  case 1
  show ?case by simp
next
  case (2 R T data encoder name is_union args x k v b)
  from 2(5) obtain a where a: "args = Some a" and s: "subscript a 1 = Inr b"
    by (cases args) auto
  from s have "size b < Suc (size_list size a)" by (rule subscript_size)
  with 2(1) a show ?case by simp
qed

declare parse_type_v1.simps [simp del]

section \<open>Notions the properties are stated with\<close>



definition MappingOf :: "pytype \<Rightarrow> pytype \<Rightarrow> pytype" where
  "MappingOf key val = Typing (Some ''Dict'') False (Some [key, val])"

text \<open>
  The vocabulary of the boolean converter, and what a casing of a word is: letter by
  letter, the letter of the word or its ASCII capital. \<open>plain\<close> is a lower-case ASCII
  letter or an ASCII digit; the words of the vocabulary are made of these.
\<close>

definition truthy_vocabulary :: "string list" where
  "truthy_vocabulary = [''y'', ''yes'', ''t'', ''true'', ''on'', ''1'']"

definition falsy_vocabulary :: "string list" where
  "falsy_vocabulary = [''n'', ''no'', ''f'', ''false'', ''off'', ''0'']"

definition upper_ascii :: "char \<Rightarrow> char" where
  "upper_ascii c =
     (let n = (of_char c :: nat) in if 97 \<le> n \<and> n \<le> 122 then char_of (n - 32) else c)"

definition casing_of :: "string \<Rightarrow> string \<Rightarrow> bool" where
  "casing_of w s = list_all2 (\<lambda>a c. a = c \<or> upper_ascii a = c) w s"

definition plain :: "char \<Rightarrow> bool" where
  "plain a = ((97 \<le> (of_char a :: nat) \<and> (of_char a :: nat) \<le> 122) \<or> is_digit a)"




text \<open>
  The date converter as the specification words it: a date passes through; a byte sequence
  is decoded to text; then the fast parse, the ISO-8601 parse and the flexible parse are
  tried on the text in this order, and the conversion fails, with the conversion error,
  only if all three do.
\<close>

definition to_date_spec :: "runtime \<Rightarrow> pyval \<Rightarrow> result" where
  "to_date_spec R obj =
     (if isinstance_date obj then Inr obj
      else case decode_if_bytes obj of
          Inl e \<Rightarrow> Inl e
        | Inr obj' \<Rightarrow>
            (case obj' of
               Str s \<Rightarrow>
                 (case ciso8601_parse_datetime R s of
                    Some dt \<Rightarrow> Inr (PDate (date_of dt))
                  | None \<Rightarrow>
                      (case datetime_fromisoformat R s of
                         Some dt \<Rightarrow> Inr (PDate (date_of dt))
                       | None \<Rightarrow>
                           (case pendulum_parse R s of
                              Inr (PendulumDateTime dt) \<Rightarrow> Inr (PDate (date_of dt))
                            | _ \<Rightarrow> Inl ValueError)))
             | _ \<Rightarrow> Inl ValueError))"

text \<open>
  What the idempotence of the coercion needs of the runtime, all of it true of CPython:
  \<^verbatim>\<open>str\<close> of a text and \<^verbatim>\<open>bytes\<close> of a byte sequence are the value itself, \<^verbatim>\<open>UUID("None")\<close>
  raises \<^verbatim>\<open>ValueError\<close>, and \<^verbatim>\<open>float(None)\<close> raises \<^verbatim>\<open>TypeError\<close>.
\<close>

definition cpython_facts :: "runtime \<Rightarrow> bool" where
  "cpython_facts R =
     ((\<forall>s. py_str R (Str s) = s) \<and> (\<forall>b. py_bytes R (Bytes b) = Inr b)
      \<and> UUID_new R (py_str R PNone) = None \<and> py_float R PNone = Inl TypeError)"

text \<open>
  A small runtime on which the model is evaluated at concrete inputs. It reads a text of
  ASCII digits as an integer, refuses any text as a float, a decimal or an identifier,
  knows one date text, one duration text and one JSON document, has the vocabulary of
  \<^verbatim>\<open>distutils.util.strtobool\<close>, and has no dataclass. On the inputs used
  below it answers as CPython and the libraries do: \<^verbatim>\<open>int(None)\<close> and \<^verbatim>\<open>float(None)\<close> raise
  \<^verbatim>\<open>TypeError\<close>, \<^verbatim>\<open>float("abc")\<close> raises \<^verbatim>\<open>ValueError\<close>, \<^verbatim>\<open>Decimal("abc")\<close> raises
  \<^verbatim>\<open>decimal.InvalidOperation\<close> (an \<^verbatim>\<open>ArithmeticError\<close>, not a \<^verbatim>\<open>ValueError\<close>), and
  \<^verbatim>\<open>UUID("None")\<close> raises \<^verbatim>\<open>ValueError\<close>.
\<close>

definition example_runtime :: runtime where
  "example_runtime =
     \<lparr> py_str = (\<lambda>v. case v of Str s \<Rightarrow> s | PNone \<Rightarrow> ''None'' | _ \<Rightarrow> ''<object>''),
       py_bytes = (\<lambda>v. case v of Bytes b \<Rightarrow> Inr b | _ \<Rightarrow> Inl TypeError),
       py_int = (\<lambda>v. case v of
                    Str s \<Rightarrow> if s \<noteq> [] \<and> list_all is_digit s then Inr (int_of_digits s)
                             else Inl ValueError
                  | PInt n \<Rightarrow> Inr n
                  | PBool b \<Rightarrow> Inr (if b then 1 else 0)
                  | _ \<Rightarrow> Inl TypeError),
       py_float = (\<lambda>v. case v of Str _ \<Rightarrow> Inl ValueError | _ \<Rightarrow> Inl TypeError),
       py_bool = (\<lambda>v. True),
       Decimal_new = (\<lambda>v. case v of Str _ \<Rightarrow> Inl InvalidOperation | _ \<Rightarrow> Inl TypeError),
       UUID_new = (\<lambda>s. None),
       ciso8601_parse_datetime =
         (\<lambda>s. if s = ''2024-01-05'' then Some (DateTime 2024 1 5 0 0 0 0) else None),
       datetime_fromisoformat =
         (\<lambda>s. if s = ''2024-01-05'' then Some (DateTime 2024 1 5 0 0 0 0) else None),
       pendulum_parse =
         (\<lambda>s. if s = ''2024-01-05'' then Inr (PendulumDateTime (DateTime 2024 1 5 0 0 0 0))
              else if s = ''P1D'' then Inr (PendulumDuration 86400000000)
              else Inl ValueError),
       dateutil_parse =
         (\<lambda>s. if s = ''2024-01-05'' then Inr (DateTime 2024 1 5 0 0 0 0) else Inl ValueError),
       orjson_loads = (\<lambda>s. if s = ''5'' then Some (PInt 5) else None),
       distutils_strtobool =
         (\<lambda>s. if lower s \<in> set truthy_vocabulary then Some 1
              else if lower s \<in> set falsy_vocabulary then Some 0 else None),
       is_dataclass = (\<lambda>T. False),
       is_dataclass_obj = (\<lambda>v. False),
       is_iterable = isinstance_list_tuple,
       call_kwargs = (\<lambda>T items. Inl TypeError),
       call_star = (\<lambda>T x. Inl TypeError),
       call_one = (\<lambda>T x. Inl TypeError),
       call_none = (\<lambda>T. Inl TypeError) \<rparr>"

text \<open>
  The same runtime with a fast parser that reads one more text than the other parsers: a
  time of 24:00:00, taken as the start of the next day. Any text that only the fast parser
  reads makes the same point; which texts these are in a given installation of the
  libraries is not part of the model.
\<close>

definition midnight_runtime :: runtime where
  "midnight_runtime =
     example_runtime
       \<lparr> ciso8601_parse_datetime :=
           (\<lambda>s. if s = ''2024-01-05T24:00:00'' then Some (DateTime 2024 1 6 0 0 0 0) else None) \<rparr>"

section \<open>Properties\<close>

lemma example_runtime_fields:
  "py_str example_runtime PNone = ''None''"
  "py_str example_runtime (Str s) = s"
  "py_bytes example_runtime (Bytes b) = Inr b"
  "py_int example_runtime PNone = Inl TypeError"
  "py_int example_runtime (Str ''42'') = Inr 42"
  "py_int example_runtime (Str ''7'') = Inr 7"
  "py_int example_runtime (Str ''abc'') = Inl ValueError"
  "py_float example_runtime PNone = Inl TypeError"
  "py_float example_runtime (Str s) = Inl ValueError"
  "Decimal_new example_runtime (Str s) = Inl InvalidOperation"
  "UUID_new example_runtime s = None"
  "is_dataclass example_runtime T = False"
  "is_iterable example_runtime (PList xs) = True"
  "orjson_loads example_runtime ''5'' = Some (PInt 5)"
  by (simp_all add: example_runtime_def is_digit_def int_of_digits_def digit_value_def
      isinstance_list_tuple_def)

subsection \<open>Identifier\<close>

text \<open>
  Claim C10, as the code has it. \<^verbatim>\<open>to_uuid\<close> never raises, in either variant, and returns
  an identifier unchanged. In the first variant every other input gives the identifier
  parsed from its text, or \<^verbatim>\<open>None\<close> where the text is no identifier. The second variant
  does the same for every input that is not a value-producer, and for a value-producer
  whose call raises; a value-producer whose call returns gives what the call returned,
  whatever it is.
\<close>

theorem to_uuid_lenient:
  "(\<exists>v. to_uuid R obj = Inr v) \<and> (\<exists>v. to_uuid_v1 R obj = Inr v)
   \<and> to_uuid R (PUUID u) = Inr (PUUID u) \<and> to_uuid_v1 R (PUUID u) = Inr (PUUID u)
   \<and> (\<not> isinstance_UUID obj \<longrightarrow>
        to_uuid_v1 R obj
          = (case UUID_new R (py_str R obj) of Some x \<Rightarrow> Inr (PUUID x) | None \<Rightarrow> Inr PNone))
   \<and> (\<not> isinstance_UUID obj \<longrightarrow> (callable obj \<longrightarrow> call obj = None) \<longrightarrow>
        to_uuid R obj
          = (case UUID_new R (py_str R obj) of Some x \<Rightarrow> Inr (PUUID x) | None \<Rightarrow> Inr PNone))
   \<and> (\<not> isinstance_UUID obj \<longrightarrow> callable obj \<longrightarrow> call obj = Some w \<longrightarrow> to_uuid R obj = Inr w)"
  by (auto simp: to_uuid_def to_uuid_v1_def isinstance_UUID_def split: option.splits)

theorem to_uuid_lenient_witness:
  "to_uuid example_runtime (Str ''abc'') = Inr PNone
   \<and> to_uuid_v1 example_runtime (Callable (Some (PInt 5))) = Inr PNone
   \<and> to_uuid example_runtime (Callable None) = Inr PNone
   \<and> to_uuid example_runtime (Callable (Some (PInt 5))) = Inr (PInt 5)"
  using to_uuid_lenient [of example_runtime "Str ''abc''"]
    to_uuid_lenient [of example_runtime "Callable (Some (PInt 5))" _ "PInt 5"]
    to_uuid_lenient [of example_runtime "Callable None"]
  by (simp add: isinstance_UUID_def callable_def call_def example_runtime_fields)

text \<open>
  Claim C10 as stated fails on a value-producer: the second variant returns the integer
  the call produced, which is neither an identifier nor \<^verbatim>\<open>None\<close>.
\<close>

theorem to_uuid_callable_counterexample:
  "\<not> isinstance_UUID (Callable (Some (PInt 5)))
   \<and> to_uuid example_runtime (Callable (Some (PInt 5))) = Inr (PInt 5)
   \<and> PInt 5 \<noteq> PNone \<and> \<not> isinstance_UUID (PInt 5)"
  by (simp add: to_uuid_def isinstance_UUID_def callable_def call_def)

subsection \<open>Integer, float, decimal\<close>

text \<open>
  Claim C2, as the code has it, variant by variant. In the second variant (lines 389-410)
  \<^verbatim>\<open>to_integer\<close> returns \<^verbatim>\<open>None\<close> for \<^verbatim>\<open>None\<close>; for every other input that is not integral
  and not a value-producer, and on which \<^verbatim>\<open>int\<close> raises, it raises: \<^verbatim>\<open>ValueError\<close> where
  \<^verbatim>\<open>int\<close> raised \<^verbatim>\<open>TypeError\<close> or \<^verbatim>\<open>ValueError\<close>, and the exception of \<^verbatim>\<open>int\<close> otherwise. In
  the first variant (lines 63-74) \<^verbatim>\<open>to_integer\<close> is lenient: for every input that is not
  integral and on which \<^verbatim>\<open>int\<close> raises \<^verbatim>\<open>TypeError\<close> or \<^verbatim>\<open>ValueError\<close> it returns \<^verbatim>\<open>None\<close>, and
  another exception of \<^verbatim>\<open>int\<close> is raised as it is.
\<close>

theorem to_integer_strict:
  "to_integer R PNone = Inr PNone
   \<and> (obj \<noteq> PNone \<longrightarrow> \<not> isinstance_int obj \<longrightarrow> \<not> callable obj \<longrightarrow> py_int R obj = Inl e \<longrightarrow>
        to_integer R obj = Inl (if e = TypeError \<or> isinstance_ValueError e then ValueError else e))
   \<and> (\<not> isinstance_int obj \<longrightarrow> py_int R obj = Inl e \<longrightarrow>
        to_integer_v1 R obj
          = (if e = TypeError \<or> isinstance_ValueError e then Inr PNone else Inl e))"
  by (simp add: to_integer_def to_integer_v1_def)

theorem to_integer_strict_witness:
  "to_integer example_runtime (Str ''abc'') = Inl ValueError
   \<and> to_integer_v1 example_runtime (Str ''abc'') = Inr PNone"
  using to_integer_strict [of example_runtime "Str ''abc''" ValueError]
  by (simp add: isinstance_int_def callable_def example_runtime_fields isinstance_ValueError_def)

text \<open>
  Claim C2 as stated fails in the second variant on \<^verbatim>\<open>None\<close>: it is not integral, not a
  value-producer, \<^verbatim>\<open>int\<close> raises on it, and \<^verbatim>\<open>to_integer\<close> returns \<^verbatim>\<open>None\<close>. In the first
  variant it fails on every text that is no integer: \<^verbatim>\<open>to_integer\<close> returns \<^verbatim>\<open>None\<close> there.
\<close>

theorem to_integer_none_counterexample:
  "\<not> isinstance_int PNone \<and> \<not> callable PNone
   \<and> py_int example_runtime PNone = Inl TypeError
   \<and> to_integer example_runtime PNone = Inr PNone
   \<and> \<not> isinstance_int (Str ''abc'') \<and> \<not> callable (Str ''abc'')
   \<and> py_int example_runtime (Str ''abc'') = Inl ValueError
   \<and> to_integer_v1 example_runtime (Str ''abc'') = Inr PNone"
  by (simp add: to_integer_def to_integer_v1_def isinstance_int_def callable_def
      example_runtime_fields isinstance_ValueError_def)

text \<open>
  The float converter is lenient. For an input that is neither a float nor a decimal nor
  a value-producer, and on which \<^verbatim>\<open>float\<close> raises \<^verbatim>\<open>TypeError\<close> or \<^verbatim>\<open>ValueError\<close>,
  \<^verbatim>\<open>to_float\<close> returns \<^verbatim>\<open>None\<close>.
\<close>

theorem to_float_lenient:
  "\<not> isinstance_float_Decimal obj \<Longrightarrow> \<not> callable obj \<Longrightarrow> py_float R obj = Inl e \<Longrightarrow>
   e = TypeError \<or> isinstance_ValueError e \<Longrightarrow> to_float R obj = Inr PNone"
  by (simp add: to_float_def)

theorem to_float_lenient_witness:
  "to_float example_runtime (Str ''abc'') = Inr PNone"
proof -
  have a: "\<not> isinstance_float_Decimal (Str ''abc'')" by (simp add: isinstance_float_Decimal_def)
  have b: "\<not> callable (Str ''abc'')" by (simp add: callable_def)
  have c: "py_float example_runtime (Str ''abc'') = Inl ValueError" by (simp add: example_runtime_fields)
  have d: "ValueError = TypeError \<or> isinstance_ValueError ValueError" by (simp add: isinstance_ValueError_def)
  from to_float_lenient [OF a b c d] show ?thesis .
qed

text \<open>
  \<^verbatim>\<open>to_decimal\<close> does the same where \<^verbatim>\<open>Decimal\<close> raises \<^verbatim>\<open>TypeError\<close> or \<^verbatim>\<open>ValueError\<close>.
\<close>

lemma to_decimal_lenient:
  "\<not> isinstance_Decimal obj \<Longrightarrow> \<not> callable obj \<Longrightarrow> Decimal_new R obj = Inl e \<Longrightarrow>
   e = TypeError \<or> isinstance_ValueError e \<Longrightarrow> to_decimal R obj = Inr PNone"
  by (simp add: to_decimal_def)

text \<open>
  Claim C8, at the input where the code departs from it. \<^verbatim>\<open>Decimal\<close> refuses a malformed
  text with \<^verbatim>\<open>decimal.InvalidOperation\<close>, which is an \<^verbatim>\<open>ArithmeticError\<close>: the handler of
  \<^verbatim>\<open>to_decimal\<close> does not catch it, and \<^verbatim>\<open>to_decimal\<close> raises instead of returning \<^verbatim>\<open>None\<close>.
\<close>

theorem to_decimal_invalid_operation:
  "Decimal_new R (Str s) = Inl InvalidOperation \<Longrightarrow> to_decimal R (Str s) = Inl InvalidOperation"
  by (simp add: to_decimal_def isinstance_Decimal_def callable_def isinstance_ValueError_def)

theorem to_decimal_invalid_operation_witness:
  "to_decimal example_runtime (Str ''abc'') = Inl InvalidOperation"
  using to_decimal_invalid_operation [of example_runtime "''abc''"]
  by (simp add: example_runtime_fields)

subsection \<open>Containers\<close>

text \<open>
  Claim C6, at the inputs where the code departs from it. For \<^verbatim>\<open>Dict[key, value]\<close> and a
  raw value that is not a mapping no branch of \<^verbatim>\<open>parse_type\<close> returns, and the result is
  \<^verbatim>\<open>None\<close>, not the raw value.
\<close>

theorem parse_type_dict_not_mapping:
  "\<not> isinstance_dict data \<Longrightarrow> parse_type R (MappingOf key val) data encoder = Inr PNone"
  by (simp add: MappingOf_def parse_type.simps)

theorem parse_type_dict_not_mapping_witness:
  "parse_type example_runtime (MappingOf (Class T_str) (Class T_int)) (Str ''abc'') None
     = Inr PNone"
  using parse_type_dict_not_mapping
    [of "Str ''abc''" example_runtime "Class T_str" "Class T_int" None]
  by (simp add: isinstance_dict_def)

lemma map_result_items:
  "map_result (\<lambda>(k, v). case f v of Inl e \<Rightarrow> Inl e | Inr v' \<Rightarrow> Inr (k, v')) items = Inr items'
   \<Longrightarrow> map fst items' = map fst items \<and> list_all2 (\<lambda>v v'. f v = Inr v') (map snd items) (map snd items')"
  by (induction items arbitrary: items') (auto split: sum.splits prod.splits)

lemma parse_type_dict_unfold:
  "parse_type R (MappingOf key val) (PDict items) encoder =
     (case map_result (\<lambda>(k, v). case parse_type R val v None of
                                   Inl e \<Rightarrow> Inl e | Inr v' \<Rightarrow> Inr (k, v')) items of
        Inl e \<Rightarrow> Inl e
      | Inr items' \<Rightarrow> Inr (PDict items'))"
  by (simp add: parse_type.simps [of _ "Typing _ _ _"] MappingOf_def isinstance_dict_def
      get_args_def subscript_def)

text \<open>
  Mappings keep their keys. For \<^verbatim>\<open>Dict[key, value]\<close> and a mapping, a successful
  \<^verbatim>\<open>parse_type\<close> gives a mapping with the same keys in the same order, each value being
  \<^verbatim>\<open>parse_type\<close> of the value type on the raw value (with no encoder).
\<close>

theorem parse_type_dict_values:
  assumes "parse_type R (MappingOf key val) (PDict items) encoder = Inr out"
  shows "\<exists>items'. out = PDict items' \<and> map fst items' = map fst items
     \<and> list_all2 (\<lambda>v v'. parse_type R val v None = Inr v') (map snd items) (map snd items')"
proof -
  from assms obtain items' where m: "map_result (\<lambda>(k, v). case parse_type R val v None of
        Inl e \<Rightarrow> Inl e | Inr v' \<Rightarrow> Inr (k, v')) items = Inr items'" and o: "out = PDict items'"
    by (auto simp: parse_type_dict_unfold split: sum.splits)
  from map_result_items [OF m] o show ?thesis by blast
qed

lemma parse_int_42:
  "parse_type example_runtime (Class T_int) (Str ''42'') None = Inr (PInt 42)"
  by (simp add: parse_type.simps example_runtime_fields encoders_def to_integer_def
      isinstance_int_def callable_def)

lemma parse_dict_example:
  "parse_type example_runtime (MappingOf (Class T_str) (Class T_int)) (PDict [(Str ''a'', Str ''42'')]) None
     = Inr (PDict [(Str ''a'', PInt 42)])"
  by (simp add: parse_type_dict_unfold parse_int_42)

theorem parse_type_dict_values_witness:
  "\<exists>items'. PDict [(Str ''a'', PInt 42)] = PDict items' \<and> map fst items' = [Str ''a'']
     \<and> list_all2 (\<lambda>v v'. parse_type example_runtime (Class T_int) v None = Inr v')
          [Str ''42''] (map snd items')"
  using parse_type_dict_values [OF parse_dict_example] by simp









text \<open>
  The first variant of \<^verbatim>\<open>parse_type\<close> on a mapping type: a raw value that is no mapping
  falls through its branches as well and gives \<^verbatim>\<open>None\<close>.
\<close>

lemma parse_type_v1_dict_not_mapping:
  "\<not> isinstance_dict data \<Longrightarrow> parse_type_v1 R (MappingOf key val) data encoder = Inr PNone"
  by (simp add: MappingOf_def parse_type_v1.simps)

subsection \<open>Boolean\<close>

lemma lower_char_of_casing:
  assumes "plain a" and "a = c \<or> upper_ascii a = c"
  shows "lower_char c = a"
proof -
  have b: "(of_char a :: nat) < 256" by simp
  from assms(2) show ?thesis
  proof
    assume "a = c"
    with assms(1) show ?thesis
      by (auto simp: plain_def lower_char_def is_digit_def Let_def)
  next
    assume "upper_ascii a = c"
    then have c: "c = upper_ascii a" by simp
    show ?thesis
    proof (cases "97 \<le> (of_char a :: nat) \<and> (of_char a :: nat) \<le> 122")
      case True
      from b have "(of_char a :: nat) - 32 < 256"
        by arith
      then have "((of_char a :: nat) - 32) mod 256 = of_char a - 32"
        by simp
      with True have oc: "(of_char c :: nat) = of_char a - 32"
        using c by (simp add: upper_ascii_def Let_def of_char_of)
      with True have r: "65 \<le> (of_char c :: nat) \<and> (of_char c :: nat) \<le> 90"
        by arith
      from oc True have plus: "(of_char c :: nat) + 32 = of_char a"
        by arith
      from r have "lower_char c = char_of ((of_char c :: nat) + 32)"
        by (simp add: lower_char_def Let_def)
      then show ?thesis by (simp add: plus)
    next
      case False
      with assms(1) c show ?thesis
        by (auto simp: plain_def upper_ascii_def lower_char_def is_digit_def Let_def)
    qed
  qed
qed

lemma casing_of_lower_char:
  assumes "plain (lower_char c)"
  shows "lower_char c = c \<or> upper_ascii (lower_char c) = c"
proof (cases "lower_char c = c")
  case True
  then show ?thesis by simp
next
  case False
  let ?n = "of_char c :: nat"
  from False have r: "(65 \<le> ?n \<and> ?n \<le> 90) \<or> (192 \<le> ?n \<and> ?n \<le> 222 \<and> ?n \<noteq> 215)"
    by (auto simp: lower_char_def Let_def split: if_splits)
  then have l: "lower_char c = char_of (?n + 32)"
    by (simp add: lower_char_def Let_def)
  have n: "(of_char (lower_char c) :: nat) = ?n + 32"
    using r by (auto simp: l of_char_of)
  from assms n r have u: "65 \<le> ?n \<and> ?n \<le> 90"
    by (auto simp: plain_def is_digit_def)
  then have "upper_ascii (lower_char c) = char_of ?n"
    using n by (simp add: upper_ascii_def Let_def)
  then show ?thesis by simp
qed

lemma lower_of_casing:
  "casing_of w s \<Longrightarrow> list_all plain w \<Longrightarrow> lower s = w"
  unfolding casing_of_def lower_def
  by (induction w s rule: list_all2_induct) (auto simp: lower_char_of_casing)

lemma casing_of_lower:
  "list_all plain (lower s) \<Longrightarrow> casing_of (lower s) s"
  unfolding casing_of_def lower_def
  by (induction s) (auto dest: casing_of_lower_char)

lemma vocabulary_plain:
  "w \<in> set (truthy_vocabulary @ falsy_vocabulary) \<Longrightarrow> list_all plain w"
  by (auto simp: truthy_vocabulary_def falsy_vocabulary_def plain_def is_digit_def)

lemma strtobool_vocabulary:
  "strtobool s =
     (if lower s \<in> set truthy_vocabulary then Inr (PBool True)
      else if lower s \<in> set falsy_vocabulary then Inr (PBool False)
      else Inl ValueError)"
  by (simp add: strtobool_def truthy_vocabulary_def falsy_vocabulary_def Let_def)

lemma to_boolean_text: "to_boolean R (Str s) = strtobool s"
  by (simp add: to_boolean_def isinstance_bool_def decode_if_bytes_def)

lemma parse_basic_bool_text:
  "parse_basic R (Class T_bool) (Str s) None =
     (case strtobool s of Inl e \<Rightarrow> Inl ValueError | Inr v \<Rightarrow> Inr v)"
  by (auto simp: parse_basic_def lookup_encoder_def encoders_def to_boolean_text strtobool_def
      Let_def isinstance_ValueError_def split: sum.splits)

text \<open>
  Claim C3. \<^verbatim>\<open>to_boolean\<close> maps every casing of a word of the truthy vocabulary to
  \<^verbatim>\<open>True\<close> and every casing of a word of the falsy vocabulary to \<^verbatim>\<open>False\<close>, and raises
  \<^verbatim>\<open>ValueError\<close> on a text that is a casing of no word of either. Coercing to \<^verbatim>\<open>bool\<close>,
  "YES" gives \<^verbatim>\<open>True\<close>, "0" gives \<^verbatim>\<open>False\<close> and "maybe" raises \<^verbatim>\<open>ValueError\<close>.
\<close>

theorem to_boolean_vocabulary:
  "(w \<in> set truthy_vocabulary \<longrightarrow> casing_of w s \<longrightarrow> to_boolean R (Str s) = Inr (PBool True))
   \<and> (w \<in> set falsy_vocabulary \<longrightarrow> casing_of w s \<longrightarrow> to_boolean R (Str s) = Inr (PBool False))
   \<and> ((\<forall>v \<in> set (truthy_vocabulary @ falsy_vocabulary). \<not> casing_of v s) \<longrightarrow>
        to_boolean R (Str s) = Inl ValueError)
   \<and> parse_basic R (Class T_bool) (Str ''YES'') None = Inr (PBool True)
   \<and> parse_basic R (Class T_bool) (Str ''0'') None = Inr (PBool False)
   \<and> parse_basic R (Class T_bool) (Str ''maybe'') None = Inl ValueError"
proof (intro conjI impI)
  assume "w \<in> set truthy_vocabulary" and "casing_of w s"
  then have "lower s = w" by (intro lower_of_casing vocabulary_plain) simp_all
  with \<open>w \<in> set truthy_vocabulary\<close> show "to_boolean R (Str s) = Inr (PBool True)"
    by (simp add: to_boolean_text strtobool_vocabulary)
next
  assume f: "w \<in> set falsy_vocabulary" and "casing_of w s"
  then have "lower s = w" by (intro lower_of_casing vocabulary_plain) simp_all
  moreover from f have "w \<notin> set truthy_vocabulary"
    by (auto simp: truthy_vocabulary_def falsy_vocabulary_def)
  ultimately show "to_boolean R (Str s) = Inr (PBool False)"
    using f by (simp add: to_boolean_text strtobool_vocabulary)
next
  assume n: "\<forall>v \<in> set (truthy_vocabulary @ falsy_vocabulary). \<not> casing_of v s"
  have "lower s \<notin> set (truthy_vocabulary @ falsy_vocabulary)"
  proof
    assume m: "lower s \<in> set (truthy_vocabulary @ falsy_vocabulary)"
    then have "casing_of (lower s) s" by (intro casing_of_lower vocabulary_plain)
    with n m show False by blast
  qed
  then show "to_boolean R (Str s) = Inl ValueError"
    by (simp add: to_boolean_text strtobool_vocabulary)
next
  show "parse_basic R (Class T_bool) (Str ''YES'') None = Inr (PBool True)"
    by (simp add: parse_basic_bool_text strtobool_def lower_def lower_char_def Let_def
        char_of_eq_iff)
next
  show "parse_basic R (Class T_bool) (Str ''0'') None = Inr (PBool False)"
    by (simp add: parse_basic_bool_text strtobool_def lower_def lower_char_def Let_def
        char_of_eq_iff)
next
  show "parse_basic R (Class T_bool) (Str ''maybe'') None = Inl ValueError"
    by (simp add: parse_basic_bool_text strtobool_def lower_def lower_char_def Let_def
        char_of_eq_iff)
qed

lemma casing_examples:
  "casing_of ''true'' ''TrUe''" "casing_of ''off'' ''OFF''"
  by (simp_all add: casing_of_def upper_ascii_def Let_def char_of_eq_iff)

lemma no_casing_maybe:
  "\<forall>v \<in> set (truthy_vocabulary @ falsy_vocabulary). \<not> casing_of v ''maybe''"
  by (simp add: truthy_vocabulary_def falsy_vocabulary_def casing_of_def upper_ascii_def Let_def
      char_of_eq_iff)

theorem to_boolean_vocabulary_witness:
  "to_boolean example_runtime (Str ''TrUe'') = Inr (PBool True)
   \<and> to_boolean example_runtime (Str ''OFF'') = Inr (PBool False)
   \<and> to_boolean example_runtime (Str ''maybe'') = Inl ValueError"
proof -
  have t: "''true'' \<in> set truthy_vocabulary" by (simp add: truthy_vocabulary_def)
  have f: "''off'' \<in> set falsy_vocabulary" by (simp add: falsy_vocabulary_def)
  from to_boolean_vocabulary [of "''true''" "''TrUe''" example_runtime] t casing_examples(1)
  have 1: "to_boolean example_runtime (Str ''TrUe'') = Inr (PBool True)" by blast
  from to_boolean_vocabulary [of "''off''" "''OFF''" example_runtime] f casing_examples(2)
  have 2: "to_boolean example_runtime (Str ''OFF'') = Inr (PBool False)" by blast
  from to_boolean_vocabulary [of _ "''maybe''" example_runtime] no_casing_maybe
  have 3: "to_boolean example_runtime (Str ''maybe'') = Inl ValueError" by blast
  from 1 2 3 show ?thesis by simp
qed

subsection \<open>Duration\<close>

lemma take_digits_sound:
  "take_digits n s = (d, r) \<Longrightarrow> s = d @ r \<and> list_all is_digit d \<and> length d \<le> n"
  by (induction n s arbitrary: d r rule: take_digits.induct) (auto split: if_splits prod.splits)












lemma digit_not_space: "is_digit c \<Longrightarrow> \<not> is_space c"
  by (auto simp: is_digit_def is_space_def Let_def)

lemma digit_not_sign:
  "is_digit c \<Longrightarrow> c \<noteq> CHR ''-'' \<and> c \<noteq> CHR ''+'' \<and> c \<noteq> CHR ''_''"
  by (auto simp: is_digit_def)

lemma strip_underscores_digits:
  "d \<noteq> [] \<Longrightarrow> list_all is_digit d \<Longrightarrow> strip_underscores d = Some d"
  by (induction d rule: strip_underscores.induct) (auto dest: digit_not_sign)

text \<open>On a text of ASCII digits \<^verbatim>\<open>int\<close> does not fail.\<close>

lemma int_text_digits:
  assumes "d \<noteq> []" and "list_all is_digit d"
  shows "int_text d = Inr (int_of_digits d)"
proof -
  from assms obtain c r where d: "d = c # r" and c: "is_digit c"
    by (cases d) auto
  from c have 1: "dropWhile is_space d = d"
    by (simp add: d digit_not_space)
  from assms have "rev d \<noteq> []" and "list_all is_digit (rev d)"
    by simp_all
  then obtain c' r' where r: "rev d = c' # r'" and c': "is_digit c'"
    by (cases "rev d") auto
  from c' have "dropWhile is_space (rev d) = rev d"
    by (simp add: r digit_not_space)
  then have 2: "rev (dropWhile is_space (rev d)) = d"
    by simp
  from c have 3: "c \<noteq> CHR ''-''" "c \<noteq> CHR ''+''"
    by (auto dest: digit_not_sign)
  have "int_text (c # r) = Inr (int_of_digits (c # r))"
    using 3 1 2 strip_underscores_digits [OF assms] unfolding d
    by (simp add: int_text_def Let_def)
  then show ?thesis by (simp add: d)
qed

lemma fraction_group_digits:
  assumes "fraction_group s = Some f"
  shows "f \<noteq> [] \<and> list_all is_digit f \<and> length f \<le> 6"
proof -
  from assms obtain c r r' where "take_digits 6 r = (f, r')" and "f \<noteq> []"
    by (auto simp: fraction_group_def split: list.splits if_splits prod.splits)
  with take_digits_sound [of 6 r f r'] show ?thesis by simp
qed

lemma convert_second_fraction_digits:
  assumes "f \<noteq> []" and "list_all is_digit f" and "length f \<le> 6"
  shows "convert_second_fraction (Some f) = Inr (int_of_digits (ljust6 f))"
proof -
  from assms have d: "ljust6 f \<noteq> []" "list_all is_digit (ljust6 f)"
    by (auto simp: ljust6_def is_digit_def list_all_iff)
  from assms(3) have "take 6 (ljust6 f) = ljust6 f"
    by (simp add: ljust6_def)
  with assms(1) int_text_digits [OF d] show ?thesis
    by (simp add: convert_second_fraction_def)
qed

text \<open>
  \<^verbatim>\<open>_convert_second_fraction\<close> does not fail on the fraction group of a match: the handlers
  for \<^verbatim>\<open>ValueError\<close> in \<^verbatim>\<open>to_timedelta\<close> are never entered, and a text that matches the
  pattern is read as a duration, the same one in both variants.
\<close>

lemma convert_second_fraction_group:
  assumes "hms_match n s = Some (h, m, sec, fr)"
  shows "\<exists>us. convert_second_fraction fr = Inr us"
proof (cases fr)
  case None
  then show ?thesis by (simp add: convert_second_fraction_def)
next
  case (Some f)
  with assms obtain s3 where "fraction_group s3 = Some f"
    by (auto simp: hms_match_def split: option.splits prod.splits if_splits)
  from fraction_group_digits [OF this] Some show ?thesis
    by (auto simp: convert_second_fraction_digits)
qed

lemma to_timedelta_match:
  assumes "TIMEDELTA_RE_match s \<noteq> None"
  shows "\<exists>d. to_timedelta (Str s) = Inr (Timedelta d)
    \<and> to_timedelta_v1 (Str s) = Inr (Timedelta d)"
proof -
  from assms obtain sign h m sec fr where t: "TIMEDELTA_RE_match s = Some (sign, h, m, sec, fr)"
    by (cases "TIMEDELTA_RE_match s") auto
  then obtain r where "hms_match 3 r = Some (h, m, sec, fr)"
    by (auto simp: TIMEDELTA_RE_match_def split: list.splits if_splits)
  from convert_second_fraction_group [OF this] obtain us
    where "convert_second_fraction fr = Inr us" by blast
  with t show ?thesis
    by (simp add: to_timedelta_def to_timedelta_v1_def decode_if_bytes_def Let_def)
qed




lemma parse_basic_timedelta:
  "parse_basic R (Class T_timedelta) data None =
     (case to_timedelta data of
        Inr v \<Rightarrow> Inr v
      | Inl e \<Rightarrow> if e = KeyError then Inr PNone
                else if e = TypeError \<or> isinstance_ValueError e then Inl ValueError else Inl e)"
  by (simp add: parse_basic_def lookup_encoder_def encoders_def split: sum.splits)




text \<open>The duration example of the specification: minus (1 h 2 min 3.25 s).\<close>

lemma to_timedelta_example:
  "to_timedelta (Str ''-01:02:03.250000'') = Inr (Timedelta (- 3723250000))"
  by code_simp

text \<open>
  The sign of a duration: where a text that does not start with a minus is read as a
  duration, the text with a minus before it is read as the negated duration.
\<close>

theorem to_timedelta_sign:
  assumes "c \<noteq> CHR ''-''" and "to_timedelta (Str (c # t)) = Inr (Timedelta d)"
  shows "to_timedelta (Str (CHR ''-'' # c # t)) = Inr (Timedelta (- d))"
proof (cases "hms_match 3 (c # t)")
  case None
  with assms show ?thesis
    by (simp add: to_timedelta_def decode_if_bytes_def TIMEDELTA_RE_match_def cy_return_def
        isinstance_timedelta_def)
next
  case (Some g)
  obtain h m sec fr where g: "g = (h, m, sec, fr)"
    by (cases g)
  from Some g convert_second_fraction_group [of 3 "c # t" h m sec fr] obtain us
    where us: "convert_second_fraction fr = Inr us" by auto
  from assms Some g us show ?thesis
    by (simp add: to_timedelta_def decode_if_bytes_def TIMEDELTA_RE_match_def Let_def)
qed

lemma to_timedelta_positive:
  "to_timedelta (Str ''01:02:03.250000'') = Inr (Timedelta 3723250000)"
  by code_simp

theorem to_timedelta_sign_witness:
  "to_timedelta (Str ''-01:02:03.250000'') = Inr (Timedelta (- 3723250000))"
proof -
  have c: "CHR ''0'' \<noteq> CHR ''-''" by simp
  from to_timedelta_sign [OF c, of "''1:02:03.250000''" 3723250000] to_timedelta_positive
  show ?thesis by simp
qed

subsection \<open>Date\<close>

lemma to_date_text:
  "to_date R (Str s) =
     (case ciso8601_parse_datetime R s of
        Some dt \<Rightarrow> Inr (PDate (date_of dt))
      | None \<Rightarrow>
          (case datetime_fromisoformat R s of
             Some dt \<Rightarrow> Inr (PDate (date_of dt))
           | None \<Rightarrow> pendulum_date R s))"
  by (simp add: to_date_def isinstance_date_def decode_if_bytes_def split: option.splits)

lemma to_date_bytes:
  "to_date R (Bytes b) =
     (case decode_ascii b of
        Inl e \<Rightarrow> Inl e
      | Inr s \<Rightarrow>
          (case datetime_fromisoformat R s of
             Some dt \<Rightarrow> Inr (PDate (date_of dt))
           | None \<Rightarrow> pendulum_date R s))"
  by (simp add: to_date_def isinstance_date_def decode_if_bytes_def
      split: option.splits sum.splits)

lemma to_date_v1_text:
  "to_date_v1 R (Str s) =
     (case dateutil_parse R s of
        Inr dt \<Rightarrow> Inr (PDate (date_of dt))
      | Inl e \<Rightarrow> if e = TypeError \<or> isinstance_ValueError e then Inl ValueError else Inl e)"
  by (simp add: to_date_v1_def isinstance_date_def decode_if_bytes_def)

lemma to_date_v1_bytes:
  "to_date_v1 R (Bytes b) =
     (case decode_ascii b of Inl e \<Rightarrow> Inl e | Inr s \<Rightarrow> to_date_v1 R (Str s))"
  by (simp add: to_date_v1_def isinstance_date_def decode_if_bytes_def split: sum.splits)

lemma pendulum_date_error:
  "pendulum_date R s = Inl ValueError \<Longrightarrow>
   \<exists>y. pendulum_parse R s = Inl y \<and> (y = TypeError \<or> isinstance_ValueError y)"
  by (auto simp: pendulum_date_def isinstance_ValueError_def
      split: sum.splits pendulum_result.splits if_splits)

lemma decode_ascii_date_text: "decode_ascii ''2024-01-05'' = Inr ''2024-01-05''"
  by (simp add: decode_ascii_def)

lemma parse_basic_date:
  "parse_basic R (Class T_date) v None =
     (case to_date R v of
        Inr x \<Rightarrow> Inr x
      | Inl e \<Rightarrow> if e = KeyError then Inr PNone
                else if e = TypeError \<or> isinstance_ValueError e then Inl ValueError else Inl e)"
  by (simp add: parse_basic_def lookup_encoder_def encoders_def split: sum.splits)

text \<open>
  Claim C7, as the code has it, variant by variant. Both variants return a date unchanged
  and decode a byte sequence before any parser sees it, so that bytes which are not ASCII
  raise at the decoding. In the second variant (lines 333-358) a text goes to the fast
  parse, then to the ISO-8601 parse, then to the flexible parse, each one tried where the
  ones before it failed, and the result is the date of the first date-time read; where the
  flexible parser raises as well (\<^verbatim>\<open>ValueError\<close>, \<^verbatim>\<open>ParserError\<close> or \<^verbatim>\<open>TypeError\<close>) the
  conversion raises \<^verbatim>\<open>ValueError\<close>, and it raises \<^verbatim>\<open>ValueError\<close> in no other case. A byte
  sequence whose text the fast parser does not read is converted as its text. The first
  variant (lines 29-44) has one parser, the flexible one of \<^verbatim>\<open>dateutil\<close>: a byte sequence
  is converted as its text, a text gives the date the parser reads, and \<^verbatim>\<open>ValueError\<close> is
  raised exactly where the parser raises \<^verbatim>\<open>ValueError\<close> or \<^verbatim>\<open>TypeError\<close>. In the second
  variant, coercing the text "2024-01-05" to a date gives the date 2024-01-05 where the
  fast parser reads that text so, and coercing the same bytes gives it where the ISO-8601
  parser does.
\<close>

theorem to_date_pipeline:
  "(isinstance_date obj \<longrightarrow> to_date R obj = Inr obj \<and> to_date_v1 R obj = Inr obj)
   \<and> (decode_ascii b = Inl e \<longrightarrow> to_date R (Bytes b) = Inl e \<and> to_date_v1 R (Bytes b) = Inl e)
   \<and> (decode_ascii b = Inr s \<longrightarrow> to_date_v1 R (Bytes b) = to_date_v1 R (Str s))
   \<and> (decode_ascii b = Inr s \<longrightarrow> ciso8601_parse_datetime R s = None \<longrightarrow>
        to_date R (Bytes b) = to_date R (Str s))
   \<and> (ciso8601_parse_datetime R s = Some dt \<longrightarrow> to_date R (Str s) = Inr (PDate (date_of dt)))
   \<and> (ciso8601_parse_datetime R s = None \<longrightarrow> datetime_fromisoformat R s = Some dt \<longrightarrow>
        to_date R (Str s) = Inr (PDate (date_of dt)))
   \<and> (ciso8601_parse_datetime R s = None \<longrightarrow> datetime_fromisoformat R s = None \<longrightarrow>
        pendulum_parse R s = Inr (PendulumDateTime dt) \<longrightarrow>
        to_date R (Str s) = Inr (PDate (date_of dt)))
   \<and> (ciso8601_parse_datetime R s = None \<longrightarrow> datetime_fromisoformat R s = None \<longrightarrow>
        pendulum_parse R s = Inl x \<longrightarrow> x = TypeError \<or> isinstance_ValueError x \<longrightarrow>
        to_date R (Str s) = Inl ValueError)
   \<and> (to_date R (Str s) = Inl ValueError \<longrightarrow>
        ciso8601_parse_datetime R s = None \<and> datetime_fromisoformat R s = None
        \<and> (\<exists>y. pendulum_parse R s = Inl y \<and> (y = TypeError \<or> isinstance_ValueError y)))
   \<and> (dateutil_parse R s = Inr dt \<longrightarrow> to_date_v1 R (Str s) = Inr (PDate (date_of dt)))
   \<and> (dateutil_parse R s = Inl x \<longrightarrow> x = TypeError \<or> isinstance_ValueError x \<longrightarrow>
        to_date_v1 R (Str s) = Inl ValueError)
   \<and> (to_date_v1 R (Str s) = Inl ValueError \<longrightarrow>
        (\<exists>y. dateutil_parse R s = Inl y \<and> (y = TypeError \<or> isinstance_ValueError y)))
   \<and> (ciso8601_parse_datetime R ''2024-01-05'' = Some (DateTime 2024 1 5 0 0 0 0) \<longrightarrow>
        parse_basic R (Class T_date) (Str ''2024-01-05'') None = Inr (PDate (Date 2024 1 5)))
   \<and> (datetime_fromisoformat R ''2024-01-05'' = Some (DateTime 2024 1 5 0 0 0 0) \<longrightarrow>
        parse_basic R (Class T_date) (Bytes ''2024-01-05'') None = Inr (PDate (Date 2024 1 5)))"
proof -
  have 1: "isinstance_date obj \<longrightarrow> to_date R obj = Inr obj \<and> to_date_v1 R obj = Inr obj"
    by (auto simp: to_date_def to_date_v1_def cy_return_def isinstance_date_def)
  have 2: "decode_ascii b = Inl e \<longrightarrow>
        to_date R (Bytes b) = Inl e \<and> to_date_v1 R (Bytes b) = Inl e"
    by (simp add: to_date_bytes to_date_v1_bytes)
  have 3: "decode_ascii b = Inr s \<longrightarrow> to_date_v1 R (Bytes b) = to_date_v1 R (Str s)"
    by (simp add: to_date_v1_bytes)
  have 4: "decode_ascii b = Inr s \<longrightarrow> ciso8601_parse_datetime R s = None \<longrightarrow>
        to_date R (Bytes b) = to_date R (Str s)"
    by (simp add: to_date_bytes to_date_text)
  have 5: "ciso8601_parse_datetime R s = Some dt \<longrightarrow>
        to_date R (Str s) = Inr (PDate (date_of dt))"
    by (simp add: to_date_text)
  have 6: "ciso8601_parse_datetime R s = None \<longrightarrow> datetime_fromisoformat R s = Some dt \<longrightarrow>
        to_date R (Str s) = Inr (PDate (date_of dt))"
    by (simp add: to_date_text)
  have 7: "ciso8601_parse_datetime R s = None \<longrightarrow> datetime_fromisoformat R s = None \<longrightarrow>
        pendulum_parse R s = Inr (PendulumDateTime dt) \<longrightarrow>
        to_date R (Str s) = Inr (PDate (date_of dt))"
    by (simp add: to_date_text pendulum_date_def)
  have 8: "ciso8601_parse_datetime R s = None \<longrightarrow> datetime_fromisoformat R s = None \<longrightarrow>
        pendulum_parse R s = Inl x \<longrightarrow> x = TypeError \<or> isinstance_ValueError x \<longrightarrow>
        to_date R (Str s) = Inl ValueError"
    by (auto simp: to_date_text pendulum_date_def)
  have 9: "to_date R (Str s) = Inl ValueError \<longrightarrow>
        ciso8601_parse_datetime R s = None \<and> datetime_fromisoformat R s = None
        \<and> (\<exists>y. pendulum_parse R s = Inl y \<and> (y = TypeError \<or> isinstance_ValueError y))"
    by (auto simp: to_date_text dest: pendulum_date_error split: option.splits)
  have 10: "dateutil_parse R s = Inr dt \<longrightarrow> to_date_v1 R (Str s) = Inr (PDate (date_of dt))"
    by (simp add: to_date_v1_text)
  have 11: "dateutil_parse R s = Inl x \<longrightarrow> x = TypeError \<or> isinstance_ValueError x \<longrightarrow>
        to_date_v1 R (Str s) = Inl ValueError"
    by (auto simp: to_date_v1_text)
  have 12: "to_date_v1 R (Str s) = Inl ValueError \<longrightarrow>
        (\<exists>y. dateutil_parse R s = Inl y \<and> (y = TypeError \<or> isinstance_ValueError y))"
    by (auto simp: to_date_v1_text isinstance_ValueError_def split: sum.splits if_splits)
  have 13: "ciso8601_parse_datetime R ''2024-01-05'' = Some (DateTime 2024 1 5 0 0 0 0) \<longrightarrow>
        parse_basic R (Class T_date) (Str ''2024-01-05'') None = Inr (PDate (Date 2024 1 5))"
    by (simp add: parse_basic_date to_date_text)
  have 14: "datetime_fromisoformat R ''2024-01-05'' = Some (DateTime 2024 1 5 0 0 0 0) \<longrightarrow>
        parse_basic R (Class T_date) (Bytes ''2024-01-05'') None
          = Inr (PDate (Date 2024 1 5))"
    by (simp add: parse_basic_date to_date_bytes decode_ascii_date_text)
  from 1 2 3 4 5 6 7 8 9 10 11 12 13 14 show ?thesis
    by (intro conjI)
qed

lemma example_runtime_dates:
  "ciso8601_parse_datetime example_runtime ''2024-01-05'' = Some (DateTime 2024 1 5 0 0 0 0)"
  "datetime_fromisoformat example_runtime ''2024-01-05'' = Some (DateTime 2024 1 5 0 0 0 0)"
  "dateutil_parse example_runtime ''2024-01-05'' = Inr (DateTime 2024 1 5 0 0 0 0)"
  "ciso8601_parse_datetime example_runtime ''soon'' = None"
  "datetime_fromisoformat example_runtime ''soon'' = None"
  "pendulum_parse example_runtime ''soon'' = Inl ValueError"
  "dateutil_parse example_runtime ''soon'' = Inl ValueError"
  by (simp_all add: example_runtime_def)

theorem to_date_pipeline_witness:
  "to_date example_runtime (PDate (Date 2024 1 5)) = Inr (PDate (Date 2024 1 5))
   \<and> parse_basic example_runtime (Class T_date) (Str ''2024-01-05'') None
       = Inr (PDate (Date 2024 1 5))
   \<and> parse_basic example_runtime (Class T_date) (Bytes ''2024-01-05'') None
       = Inr (PDate (Date 2024 1 5))
   \<and> to_date example_runtime (Str ''soon'') = Inl ValueError
   \<and> to_date_v1 example_runtime (Str ''2024-01-05'') = Inr (PDate (Date 2024 1 5))
   \<and> to_date_v1 example_runtime (Bytes ''2024-01-05'') = Inr (PDate (Date 2024 1 5))
   \<and> to_date_v1 example_runtime (Str ''soon'') = Inl ValueError"
proof -
  note t = to_date_pipeline [of "PDate (Date 2024 1 5)" example_runtime "''2024-01-05''"
      ValueError "''soon''" "DateTime 2024 1 5 0 0 0 0" ValueError]
  note u = to_date_pipeline [of "PDate (Date 2024 1 5)" example_runtime "''2024-01-05''"
      ValueError "''2024-01-05''" "DateTime 2024 1 5 0 0 0 0" ValueError]
  note t1 = t [THEN conjunct1]
  note t8 = t [THEN conjunct2, THEN conjunct2, THEN conjunct2, THEN conjunct2, THEN conjunct2,
      THEN conjunct2, THEN conjunct2, THEN conjunct1]
  note t11 = t [THEN conjunct2, THEN conjunct2, THEN conjunct2, THEN conjunct2, THEN conjunct2,
      THEN conjunct2, THEN conjunct2, THEN conjunct2, THEN conjunct2, THEN conjunct2,
      THEN conjunct1]
  note t13 = t [THEN conjunct2, THEN conjunct2, THEN conjunct2, THEN conjunct2, THEN conjunct2,
      THEN conjunct2, THEN conjunct2, THEN conjunct2, THEN conjunct2, THEN conjunct2,
      THEN conjunct2, THEN conjunct2, THEN conjunct1]
  note t14 = t [THEN conjunct2, THEN conjunct2, THEN conjunct2, THEN conjunct2, THEN conjunct2,
      THEN conjunct2, THEN conjunct2, THEN conjunct2, THEN conjunct2, THEN conjunct2,
      THEN conjunct2, THEN conjunct2, THEN conjunct2]
  note u3 = u [THEN conjunct2, THEN conjunct2, THEN conjunct1]
  note u10 = u [THEN conjunct2, THEN conjunct2, THEN conjunct2, THEN conjunct2, THEN conjunct2,
      THEN conjunct2, THEN conjunct2, THEN conjunct2, THEN conjunct2, THEN conjunct1]
  have d: "isinstance_date (PDate (Date 2024 1 5))" by (simp add: isinstance_date_def)
  have v: "ValueError = TypeError \<or> isinstance_ValueError ValueError"
    by (simp add: isinstance_ValueError_def)
  from t1 d have 1: "to_date example_runtime (PDate (Date 2024 1 5)) = Inr (PDate (Date 2024 1 5))"
    by simp
  from t13 example_runtime_dates(1)
  have 2: "parse_basic example_runtime (Class T_date) (Str ''2024-01-05'') None
      = Inr (PDate (Date 2024 1 5))"
    by simp
  from t14 example_runtime_dates(2)
  have 3: "parse_basic example_runtime (Class T_date) (Bytes ''2024-01-05'') None
      = Inr (PDate (Date 2024 1 5))"
    by simp
  from t8 example_runtime_dates(4,5,6) v
  have 4: "to_date example_runtime (Str ''soon'') = Inl ValueError"
    by simp
  from u10 example_runtime_dates(3)
  have 5: "to_date_v1 example_runtime (Str ''2024-01-05'') = Inr (PDate (Date 2024 1 5))"
    by simp
  from u3 decode_ascii_date_text
  have "to_date_v1 example_runtime (Bytes ''2024-01-05'')
      = to_date_v1 example_runtime (Str ''2024-01-05'')"
    by simp
  with 5 have 6: "to_date_v1 example_runtime (Bytes ''2024-01-05'')
      = Inr (PDate (Date 2024 1 5))"
    by simp
  from t11 example_runtime_dates(7) v
  have 7: "to_date_v1 example_runtime (Str ''soon'') = Inl ValueError"
    by simp
  from 1 2 3 4 5 6 7 show ?thesis by simp
qed

text \<open>
  Claim C7 as stated fails in the first variant on a text that only the fast parser
  reads: the pipeline of the specification gives a date, while \<^verbatim>\<open>to_date\<close>, which has the
  one parser of \<^verbatim>\<open>dateutil\<close>, raises \<^verbatim>\<open>ValueError\<close>.
\<close>

theorem to_date_v1_counterexample:
  "to_date_spec midnight_runtime (Str ''2024-01-05T24:00:00'') = Inr (PDate (Date 2024 1 6))
   \<and> to_date_v1 midnight_runtime (Str ''2024-01-05T24:00:00'') = Inl ValueError"
  by (simp add: to_date_v1_text to_date_spec_def isinstance_date_def decode_if_bytes_def
      midnight_runtime_def example_runtime_def isinstance_ValueError_def)

text \<open>
  Two inputs of the second variant that the statement above leaves out. A byte sequence
  whose text only the fast parser reads is refused, since the test for text (line 342)
  comes before the decoding (lines 347-348). And where \<^verbatim>\<open>pendulum\<close> reads the text as a
  duration, \<^verbatim>\<open>.date()\<close> raises \<^verbatim>\<open>AttributeError\<close>, which escapes the handler of line 355.
\<close>

lemma to_date_bytes_skip_fast_parse:
  "to_date midnight_runtime (Str ''2024-01-05T24:00:00'') = Inr (PDate (Date 2024 1 6))
   \<and> to_date midnight_runtime (Bytes ''2024-01-05T24:00:00'') = Inl ValueError"
  by (simp add: to_date_text to_date_bytes pendulum_date_def decode_ascii_def
      midnight_runtime_def example_runtime_def isinstance_ValueError_def)

lemma to_date_duration:
  "ciso8601_parse_datetime R s = None \<Longrightarrow> datetime_fromisoformat R s = None \<Longrightarrow>
   pendulum_parse R s = Inr (PendulumDuration d) \<Longrightarrow> to_date R (Str s) = Inl AttributeError"
  by (simp add: to_date_text pendulum_date_def)

lemma to_date_duration_example:
  "to_date example_runtime (Str ''P1D'') = Inl AttributeError
   \<and> parse_basic example_runtime (Class T_date) (Str ''P1D'') None = Inl AttributeError"
  by (simp add: parse_basic_date to_date_text pendulum_date_def example_runtime_def
      isinstance_ValueError_def)

subsection \<open>Idempotence of the coercion of primitives\<close>

lemma parse_basic_conv:
  assumes "encoders R c = Some conv"
  shows "parse_basic R (Class c) v None =
     (case conv v of
        Inr x \<Rightarrow> Inr x
      | Inl e \<Rightarrow> if e = KeyError then Inr PNone
                else if e = TypeError \<or> isinstance_ValueError e then Inl ValueError else Inl e)"
proof -
  from assms have "c \<noteq> T_str" and "c \<noteq> T_bytes"
    by (auto simp: encoders_def)
  with assms show ?thesis
    by (simp add: parse_basic_def lookup_encoder_def split: sum.splits)
qed

lemma parse_basic_no_conv:
  assumes "lookup_encoder R T = None" and "T \<noteq> Class T_str" and "T \<noteq> Class T_bytes"
  shows "parse_basic R T v None = Inr PNone"
  using assms by (simp add: parse_basic_def)

lemma idempotent_by_fixpoint:
  assumes enc: "encoders R c = Some conv"
    and res: "parse_basic R (Class c) v None = Inr w"
    and fixp: "\<And>x. conv v = Inr x \<Longrightarrow> conv x = Inr x"
    and none: "conv v = Inl KeyError \<Longrightarrow> conv PNone = Inr PNone"
  shows "parse_basic R (Class c) w None = Inr w"
proof (cases "conv v")
  case (Inr x)
  with res enc have "w = x" by (simp add: parse_basic_conv)
  with Inr fixp enc show ?thesis by (simp add: parse_basic_conv)
next
  case (Inl e)
  with res enc have "e = KeyError" and "w = PNone"
    by (auto simp: parse_basic_conv split: if_splits)
  with Inl none enc show ?thesis by (simp add: parse_basic_conv)
qed

lemma to_uuid_fix:
  "cpython_facts R \<Longrightarrow> \<not> callable v \<Longrightarrow> to_uuid R v = Inr x \<Longrightarrow> to_uuid R x = Inr x"
  by (auto simp: to_uuid_def cpython_facts_def isinstance_UUID_def callable_def
      split: if_splits option.splits)

lemma to_uuid_total: "to_uuid R v \<noteq> Inl e"
  by (auto simp: to_uuid_def split: if_splits option.splits)

lemma strtobool_result: "strtobool s = Inr x \<Longrightarrow> \<exists>b. x = PBool b"
  by (auto simp: strtobool_def Let_def split: if_splits)

lemma strtobool_error: "strtobool s = Inl e \<Longrightarrow> e = ValueError"
  by (auto simp: strtobool_def Let_def split: if_splits)

lemma to_boolean_result:
  "\<not> callable v \<Longrightarrow> to_boolean R v = Inr x \<Longrightarrow> \<exists>b. x = PBool b"
  by (cases v)
    (auto simp: to_boolean_def isinstance_bool_def decode_if_bytes_def callable_def
      dest: strtobool_result split: if_splits sum.splits)

lemma to_boolean_error:
  "to_boolean R v = Inl e \<Longrightarrow> e \<noteq> KeyError"
  by (cases v)
    (auto simp: to_boolean_def isinstance_bool_def decode_if_bytes_def decode_ascii_def
      dest: strtobool_error split: if_splits sum.splits option.splits)

lemma to_boolean_fix:
  assumes "\<not> callable v" and "to_boolean R v = Inr x"
  shows "to_boolean R x = Inr x"
proof -
  from to_boolean_result [OF assms] obtain b where "x = PBool b" by blast
  then show ?thesis by (simp add: to_boolean_def isinstance_bool_def)
qed

lemma to_integer_fix:
  "\<not> callable v \<Longrightarrow> to_integer R v = Inr x \<Longrightarrow> to_integer R x = Inr x"
  by (auto simp: to_integer_def isinstance_int_def split: if_splits sum.splits)

lemma to_float_fix:
  "cpython_facts R \<Longrightarrow> \<not> callable v \<Longrightarrow> to_float R v = Inr x \<Longrightarrow> to_float R x = Inr x"
  by (auto simp: to_float_def cpython_facts_def isinstance_float_Decimal_def callable_def
      isinstance_MISSING_TYPE_def split: if_splits sum.splits)

lemma to_float_none: "cpython_facts R \<Longrightarrow> to_float R PNone = Inr PNone"
  by (simp add: to_float_def cpython_facts_def isinstance_float_Decimal_def callable_def
      isinstance_MISSING_TYPE_def)

lemma to_decimal_fix:
  "\<not> callable v \<Longrightarrow> to_decimal R v = Inr x \<Longrightarrow> to_decimal R x = Inr x"
  by (auto simp: to_decimal_def isinstance_Decimal_def split: if_splits sum.splits)

lemma pendulum_date_result:
  "pendulum_date R s = Inr x \<Longrightarrow> isinstance_date x"
  by (auto simp: pendulum_date_def isinstance_date_def
      split: sum.splits pendulum_result.splits if_splits)

lemma to_date_result:
  "to_date R v = Inr x \<Longrightarrow> x = PNone \<or> isinstance_date x"
  by (auto simp: to_date_def cy_return_def isinstance_date_def
      dest: pendulum_date_result
      split: if_splits sum.splits option.splits pyval.splits)

lemma to_date_none: "to_date R PNone = Inr PNone"
  by (simp add: to_date_def)

lemma to_date_fix:
  assumes "to_date R v = Inr x"
  shows "to_date R x = Inr x"
proof -
  from to_date_result [OF assms] show ?thesis
    by (auto simp: to_date_def cy_return_def)
qed

lemma pendulum_datetime_result:
  "pendulum_datetime R s = Inr x \<Longrightarrow> isinstance_datetime x"
  by (auto simp: pendulum_datetime_def isinstance_datetime_def
      split: sum.splits pendulum_result.splits if_splits)

lemma to_datetime_result:
  "to_datetime R v = Inr x \<Longrightarrow> x = PNone \<or> isinstance_datetime x"
  by (auto simp: to_datetime_def cy_return_def isinstance_datetime_def
      dest: pendulum_datetime_result
      split: if_splits sum.splits option.splits pyval.splits)

lemma to_datetime_none: "to_datetime R PNone = Inr PNone"
  by (simp add: to_datetime_def)

lemma to_datetime_fix:
  assumes "to_datetime R v = Inr x"
  shows "to_datetime R x = Inr x"
proof -
  from to_datetime_result [OF assms] show ?thesis
    by (auto simp: to_datetime_def cy_return_def)
qed

lemma to_time_result:
  "\<not> callable v \<Longrightarrow> to_time R v = Inr x \<Longrightarrow> x = PNone \<or> isinstance_time x \<or> x = v"
  by (auto simp: to_time_def isinstance_time_def
      split: if_splits sum.splits option.splits pyval.splits)

lemma to_time_fix:
  assumes "\<not> callable v" and "to_time R v = Inr x"
  shows "to_time R x = Inr x"
proof -
  from to_time_result [OF assms] consider "x = PNone" | "isinstance_time x" | "x = v"
    by blast
  then show ?thesis
  proof cases
    case 1
    then show ?thesis by (simp add: to_time_def)
  next
    case 2
    then show ?thesis by (auto simp: to_time_def isinstance_time_def)
  next
    case 3
    with assms(2) show ?thesis by simp
  qed
qed

lemma to_object_fix:
  "to_object R v = Inr x \<Longrightarrow> x = PNone \<or> isinstance_list_tuple x \<or> isinstance_dict x \<Longrightarrow>
   to_object R x = Inr x"
  by (auto simp: to_object_def)

lemma to_object_error: "to_object R v = Inl e \<Longrightarrow> e \<noteq> KeyError"
  by (auto simp: to_object_def split: if_splits option.splits pyval.splits)

text \<open>
  Claim C9, as the code has it. Let the runtime have the facts of CPython above, let the
  kind not be \<^verbatim>\<open>timedelta\<close> and the value not be a value-producer. If coercing the value
  succeeds, and for the kinds \<^verbatim>\<open>dict\<close>, \<^verbatim>\<open>list\<close> and \<^verbatim>\<open>tuple\<close> gives a list, a tuple, a
  mapping or \<^verbatim>\<open>None\<close>, then coercing the result again gives the result.
\<close>

theorem parse_basic_idempotent:
  assumes facts: "cpython_facts R"
    and v: "\<not> callable v"
    and T: "T \<noteq> Class T_timedelta"
    and res: "parse_basic R T v None = Inr w"
    and obj: "T \<in> {Class T_dict, Class T_list, Class T_tuple} \<longrightarrow>
        w = PNone \<or> isinstance_list_tuple w \<or> isinstance_dict w"
  shows "parse_basic R T w None = Inr w"
proof (cases T)
  case (Typing name u args)
  then have "parse_basic R T x None = Inr PNone" for x
    by (simp add: parse_basic_no_conv lookup_encoder_def)
  with res show ?thesis by simp
next
  case (Class c)
  from res Class have r: "parse_basic R (Class c) v None = Inr w" by simp
  have none: "parse_basic R (Class c) x None = Inr PNone" if "encoders R c = None"
    "c \<noteq> T_str" "c \<noteq> T_bytes" for x
    using that by (simp add: parse_basic_no_conv lookup_encoder_def)
  have ?thesis if "encoders R c = None" "c \<noteq> T_str" "c \<noteq> T_bytes"
    using none [OF that] res Class by simp
  moreover have ?thesis if "c = T_str"
    using that res Class facts by (auto simp: parse_basic_def cpython_facts_def)
  moreover have ?thesis if "c = T_bytes"
    using that res Class facts
    by (auto simp: parse_basic_def cpython_facts_def split: sum.splits)
  moreover have ?thesis if c: "c = T_UUID"
  proof -
    from c have e: "encoders R c = Some (to_uuid R)" by (simp add: encoders_def)
    show ?thesis
      unfolding Class
    proof (rule idempotent_by_fixpoint [OF e r])
      fix x assume "to_uuid R v = Inr x"
      then show "to_uuid R x = Inr x" using facts v by (rule to_uuid_fix [rotated 2])
    next
      assume "to_uuid R v = Inl KeyError"
      then show "to_uuid R PNone = Inr PNone" by (simp add: to_uuid_total)
    qed
  qed
  moreover have ?thesis if c: "c = T_bool"
  proof -
    from c have e: "encoders R c = Some (to_boolean R)" by (simp add: encoders_def)
    show ?thesis
      unfolding Class
    proof (rule idempotent_by_fixpoint [OF e r])
      fix x assume "to_boolean R v = Inr x"
      then show "to_boolean R x = Inr x" using v by (rule to_boolean_fix [rotated])
    next
      assume "to_boolean R v = Inl KeyError"
      then show "to_boolean R PNone = Inr PNone" by (auto dest: to_boolean_error)
    qed
  qed
  moreover have ?thesis if c: "c = T_int"
  proof -
    from c have e: "encoders R c = Some (to_integer R)" by (simp add: encoders_def)
    show ?thesis
      unfolding Class
    proof (rule idempotent_by_fixpoint [OF e r])
      fix x assume "to_integer R v = Inr x"
      then show "to_integer R x = Inr x" using v by (rule to_integer_fix [rotated])
    next
      assume "to_integer R v = Inl KeyError"
      then show "to_integer R PNone = Inr PNone" by (simp add: to_integer_def)
    qed
  qed
  moreover have ?thesis if c: "c = T_float"
  proof -
    from c have e: "encoders R c = Some (to_float R)" by (simp add: encoders_def)
    show ?thesis
      unfolding Class
    proof (rule idempotent_by_fixpoint [OF e r])
      fix x assume "to_float R v = Inr x"
      then show "to_float R x = Inr x" using facts v by (rule to_float_fix [rotated 2])
    next
      assume "to_float R v = Inl KeyError"
      then show "to_float R PNone = Inr PNone" using facts by (simp add: to_float_none)
    qed
  qed
  moreover have ?thesis if c: "c = T_Decimal"
  proof -
    from c have e: "encoders R c = Some (to_decimal R)" by (simp add: encoders_def)
    show ?thesis
      unfolding Class
    proof (rule idempotent_by_fixpoint [OF e r])
      fix x assume "to_decimal R v = Inr x"
      then show "to_decimal R x = Inr x" using v by (rule to_decimal_fix [rotated])
    next
      assume "to_decimal R v = Inl KeyError"
      then show "to_decimal R PNone = Inr PNone" by (simp add: to_decimal_def)
    qed
  qed
  moreover have ?thesis if c: "c = T_date"
  proof -
    from c have e: "encoders R c = Some (to_date R)" by (simp add: encoders_def)
    show ?thesis
      unfolding Class
    proof (rule idempotent_by_fixpoint [OF e r])
      fix x assume "to_date R v = Inr x"
      then show "to_date R x = Inr x" by (rule to_date_fix)
    next
      show "to_date R PNone = Inr PNone" by (rule to_date_none)
    qed
  qed
  moreover have ?thesis if c: "c = T_datetime"
  proof -
    from c have e: "encoders R c = Some (to_datetime R)" by (simp add: encoders_def)
    show ?thesis
      unfolding Class
    proof (rule idempotent_by_fixpoint [OF e r])
      fix x assume "to_datetime R v = Inr x"
      then show "to_datetime R x = Inr x" by (rule to_datetime_fix)
    next
      show "to_datetime R PNone = Inr PNone" by (rule to_datetime_none)
    qed
  qed
  moreover have ?thesis if c: "c = T_time"
  proof -
    from c have e: "encoders R c = Some (to_time R)" by (simp add: encoders_def)
    show ?thesis
      unfolding Class
    proof (rule idempotent_by_fixpoint [OF e r])
      fix x assume "to_time R v = Inr x"
      then show "to_time R x = Inr x" using v by (rule to_time_fix [rotated])
    next
      assume "to_time R v = Inl KeyError"
      then show "to_time R PNone = Inr PNone" by (simp add: to_time_def)
    qed
  qed
  moreover have ?thesis if "c = T_dict \<or> c = T_list \<or> c = T_tuple"
  proof -
    from that have e: "encoders R c = Some (to_object R)" by (auto simp: encoders_def)
    from that obj Class have w: "w = PNone \<or> isinstance_list_tuple w \<or> isinstance_dict w"
      by auto
    show ?thesis
      unfolding Class
    proof (rule idempotent_by_fixpoint [OF e r])
      fix x assume x: "to_object R v = Inr x"
      with r e have "w = x" by (simp add: parse_basic_conv)
      with x w show "to_object R x = Inr x" by (auto intro: to_object_fix)
    next
      assume "to_object R v = Inl KeyError"
      then show "to_object R PNone = Inr PNone" by (auto dest: to_object_error)
    qed
  qed
  moreover have "c = T_timedelta \<Longrightarrow> False" using T Class by simp
  ultimately show ?thesis
    by (cases c) (auto simp: encoders_def)
qed


lemma example_runtime_facts: "cpython_facts example_runtime"
  by (simp add: cpython_facts_def example_runtime_fields)

lemma coerce_int_42:
  "parse_basic example_runtime (Class T_int) (Str ''42'') None = Inr (PInt 42)"
  by (simp add: parse_basic_def lookup_encoder_def encoders_def to_integer_def
      isinstance_int_def callable_def example_runtime_fields)

theorem parse_basic_idempotent_witness:
  "cpython_facts example_runtime
   \<and> parse_basic example_runtime (Class T_int) (Str ''42'') None = Inr (PInt 42)
   \<and> parse_basic example_runtime (Class T_int) (PInt 42) None = Inr (PInt 42)"
proof -
  have c: "\<not> callable (Str ''42'')" by (simp add: callable_def)
  have t: "Class T_int \<noteq> Class T_timedelta" by simp
  have o: "Class T_int \<in> {Class T_dict, Class T_list, Class T_tuple} \<longrightarrow>
      PInt 42 = PNone \<or> isinstance_list_tuple (PInt 42) \<or> isinstance_dict (PInt 42)"
    by simp
  from parse_basic_idempotent [OF example_runtime_facts c t coerce_int_42 o]
    example_runtime_facts coerce_int_42
  show ?thesis by simp
qed

text \<open>
  Claim C9 as stated fails on a value-producer: coercing it to \<^verbatim>\<open>int\<close> gives what the call
  returned, here the text "7", and coercing that text gives the integer 7.
\<close>

theorem parse_basic_callable_counterexample:
  "parse_basic example_runtime (Class T_int) (Callable (Some (Str ''7''))) None = Inr (Str ''7'')
   \<and> parse_basic example_runtime (Class T_int) (Str ''7'') None = Inr (PInt 7)
   \<and> PInt 7 \<noteq> Str ''7''"
  by (simp add: parse_basic_def lookup_encoder_def encoders_def to_integer_def
      isinstance_int_def callable_def call_def example_runtime_fields)

text \<open>
  Two more inputs on which the coercion is not idempotent. \<^verbatim>\<open>to_timedelta\<close> has no branch
  for a value that is already a duration, unlike the other converters: \<^verbatim>\<open>match\<close> raises
  \<^verbatim>\<open>TypeError\<close> on it. \<^verbatim>\<open>to_object\<close> decodes a JSON number from a text and refuses the
  number.
\<close>

lemma timedelta_not_idempotent:
  "parse_basic R (Class T_timedelta) (Str ''01:02:03'') None = Inr (Timedelta 3723000000)
   \<and> parse_basic R (Class T_timedelta) (Timedelta 3723000000) None = Inl ValueError"
proof -
  have "to_timedelta (Str ''01:02:03'') = Inr (Timedelta 3723000000)"
    by code_simp
  moreover have "to_timedelta (Timedelta 3723000000) = Inl TypeError"
    by (simp add: to_timedelta_def decode_if_bytes_def)
  ultimately show ?thesis
    by (simp add: parse_basic_timedelta)
qed

lemma object_not_idempotent:
  "parse_basic example_runtime (Class T_dict) (Str ''5'') None = Inr (PInt 5)
   \<and> parse_basic example_runtime (Class T_dict) (PInt 5) None = Inl ValueError"
  by (simp add: parse_basic_def lookup_encoder_def encoders_def to_object_def
      isinstance_list_tuple_def isinstance_dict_def callable_def example_runtime_fields
      isinstance_ValueError_def)

end
